theory Spec2Isabelle
  imports Complex_Main
begin

section \<open>The interview session engine of EnhancedInterviewSession.tsx\<close>

text \<open>
  The component keeps its state in React hooks. Every handler is modelled as a function
  from the state of the render in which it runs to the state after all its updates have
  been applied, in the order the source issues them. JavaScript numbers are modelled by
  exact reals (counters by naturals, the integer sub-scores of the local scorer by
  integers). The rounding of IEEE arithmetic is not modelled. The stored reals (the total
  score, the average response time, the running averages) can differ from the JavaScript
  values in their last digits, and a comparison can come out differently where a rounded
  value meets its threshold: this happens for the floor of the product by 0.7 and for the
  averages of facial values compared with 0.6, as noted at \<open>applyPenalties\<close> and
  \<open>nonverbalScore\<close>. The skip rate, the mean number of words per sentence and the
  product of the word count by 0.8 are compared as in JavaScript: the quotients are
  correctly rounded and the exact values are equal to the threshold or far from it.
\<close>

subsection \<open>Cumulative score\<close>

record InterviewScore =
  totalScore :: real
  questionsAnswered :: nat
  questionsSkipped :: nat
  averageResponseTime :: real
  confidence :: real
  engagement :: real
  eyeContact :: real
  communication :: real

definition MAX_QUESTIONS :: nat where
  "MAX_QUESTIONS = 5"

text \<open>The initial value given to \<open>useState<InterviewScore>\<close>.\<close>

definition initialScore :: InterviewScore where
  "initialScore = \<lparr> totalScore = 0, questionsAnswered = 0, questionsSkipped = 0,
     averageResponseTime = 0, confidence = 0.50, engagement = 0.50, eyeContact = 0.50,
     communication = 0.50 \<rparr>"

text \<open>
  An evaluation as \<open>updateScoreWithEvaluation\<close> receives it: typed \<open>any\<close>, it is either
  the object built by the local scorer or the JSON body of the remote evaluator. The
  \<open>score\<close> property may be missing; \<open>evaluation.score || 0\<close> then reads 0.
\<close>

record evaluation =
  ev_score :: "real option"
  ev_feedback :: string
  ev_strengths :: "string list"
  ev_improvements :: "string list"

definition scoreOrZero :: "evaluation \<Rightarrow> real" where
  "scoreOrZero ev = (case ev_score ev of Some x \<Rightarrow> x | None \<Rightarrow> 0)"

text \<open>
  The updater passed to \<open>setInterviewScore\<close> in \<open>updateScoreWithEvaluation\<close>
  (lines 899-912): \<open>score\<close> is \<open>evaluation.score || 0\<close>.
\<close>

definition mergeScore :: "real \<Rightarrow> real \<Rightarrow> InterviewScore \<Rightarrow> InterviewScore" where
  "mergeScore score responseTime prev =
     (let newQuestionsAnswered = questionsAnswered prev + 1;
          questionValue = score * 0.20;
          newTotalScore = totalScore prev + questionValue
      in prev \<lparr> totalScore := newTotalScore,
                questionsAnswered := newQuestionsAnswered,
                averageResponseTime :=
                  (averageResponseTime prev * real (questionsAnswered prev) + responseTime)
                    / real newQuestionsAnswered \<rparr>)"

text \<open>
  \<open>calculateSkipPenalty\<close> (lines 976-985). The quotient of JavaScript is written
  out where the divisor is 0: \<open>0 / 0\<close> is NaN, which fails every comparison, and
  \<open>n / 0\<close> for positive \<open>n\<close> is Infinity.
\<close>

definition calculateSkipPenalty :: "nat \<Rightarrow> nat \<Rightarrow> real" where
  "calculateSkipPenalty totalSkips totalQuestions =
     (if totalQuestions = 0 then (if totalSkips = 0 then 12 else 50)
      else let skipRate = real totalSkips / real totalQuestions
           in if skipRate \<ge> 0.8 then 50
              else if skipRate \<ge> 0.6 then 40
              else if skipRate \<ge> 0.4 then 30
              else if skipRate \<ge> 0.2 then 20
              else 12)"

text \<open>
  The updater passed to \<open>setInterviewScore\<close> in \<open>skipQuestion\<close> (lines 940-966).
  \<open>newTotalQuestions\<close> is at least 1, so the skip rate is an ordinary quotient.
\<close>

definition skipScore :: "InterviewScore \<Rightarrow> InterviewScore" where
  "skipScore prev =
     (let newQuestionsSkipped = questionsSkipped prev + 1;
          newTotalQuestions = questionsAnswered prev + newQuestionsSkipped;
          skipPenalty = calculateSkipPenalty newQuestionsSkipped newTotalQuestions;
          newTotalScore0 = max 0 (totalScore prev - skipPenalty);
          skipRate = real newQuestionsSkipped / real newTotalQuestions;
          newTotalScore =
            (if skipRate \<ge> 0.6 then min newTotalScore0 15
             else if skipRate \<ge> 0.4 then min newTotalScore0 35
             else newTotalScore0)
      in prev \<lparr> totalScore := newTotalScore,
                questionsSkipped := newQuestionsSkipped,
                confidence := max 0.05 (confidence prev - 0.25),
                engagement := max 0.05 (engagement prev - 0.20),
                communication := max 0.05 (communication prev - 0.15) \<rparr>)"

text \<open>The skip rate that a skip from \<open>prev\<close> results in.\<close>

definition skipRateAfter :: "InterviewScore \<Rightarrow> real" where
  "skipRateAfter prev =
     real (questionsSkipped prev + 1) / real (questionsAnswered prev + (questionsSkipped prev + 1))"

text \<open>
  \<open>Number(x.toFixed(3))\<close>: the nearest multiple of 0.001, a tie going away from zero.
\<close>

definition toFixed3 :: "real \<Rightarrow> real" where
  "toFixed3 x = (if x < 0 then - (real_of_int \<lfloor>(- x) * 1000 + 1 / 2\<rfloor> / 1000)
                 else real_of_int \<lfloor>x * 1000 + 1 / 2\<rfloor> / 1000)"

text \<open>
  The three ways in which the component changes \<open>interviewScore\<close>: the merge of an
  evaluation, a skip, and the running averages written by the facial-analysis handler
  (lines 306-311). A session's effect on the score is a sequence of them.
\<close>

datatype score_update =
    Merge evaluation real
  | Skip
  | FacialAverages real real real

fun applyUpdate :: "InterviewScore \<Rightarrow> score_update \<Rightarrow> InterviewScore" where
  "applyUpdate prev (Merge ev responseTime) = mergeScore (scoreOrZero ev) responseTime prev"
| "applyUpdate prev Skip = skipScore prev"
| "applyUpdate prev (FacialAverages avgConfidence avgEngagement avgEyeContact) =
     prev \<lparr> confidence := toFixed3 avgConfidence,
            engagement := toFixed3 avgEngagement,
            eyeContact := toFixed3 avgEyeContact \<rparr>"

definition runUpdates :: "InterviewScore \<Rightarrow> score_update list \<Rightarrow> InterviewScore" where
  "runUpdates = foldl applyUpdate"

fun isMerge :: "score_update \<Rightarrow> bool" where
  "isMerge (Merge ev responseTime) = True"
| "isMerge u = False"

fun mergedScore :: "score_update \<Rightarrow> real" where
  "mergedScore (Merge ev responseTime) = scoreOrZero ev"
| "mergedScore u = 0"

definition evalWithScore :: "real \<Rightarrow> evaluation" where
  "evalWithScore x = \<lparr> ev_score = Some x, ev_feedback = [], ev_strengths = [],
     ev_improvements = [] \<rparr>"

subsection \<open>Strings\<close>

text \<open>
  A transcript is a JavaScript string, a sequence of UTF-16 code units. The model is
  \<open>string\<close>: code units 0 to 255, the Latin-1 range, in which the whitespace of
  \<open>trim\<close> and of the regular-expression class \<open>\s\<close> is TAB, LF, VT, FF, CR, space and
  the no-break space U+00A0. The functions that walk a string hand each test to a step
  function that matches on its outcome.
\<close>

definition is_space :: "char \<Rightarrow> bool" where
  "is_space c = ((of_char c :: int) \<in> set [9, 10, 11, 12, 13, 32, 160])"

definition is_digit :: "char \<Rightarrow> bool" where
  "is_digit c = (let n = (of_char c :: int) in 48 \<le> n \<and> n \<le> 57)"

text \<open>The class \<open>\w\<close>, which decides the word boundary \<open>\b\<close>: \<open>[A-Za-z0-9_]\<close>.\<close>

definition is_word :: "char \<Rightarrow> bool" where
  "is_word c = (let n = (of_char c :: int)
     in (65 \<le> n \<and> n \<le> 90) \<or> (97 \<le> n \<and> n \<le> 122) \<or> (48 \<le> n \<and> n \<le> 57) \<or> n = 95)"

text \<open>The separator class \<open>[.!?]\<close> of the sentence split.\<close>

definition is_sentence_end :: "char \<Rightarrow> bool" where
  "is_sentence_end c = (c = CHR ''.'' \<or> c = CHR ''!'' \<or> c = CHR ''?'')"

text \<open>
  \<open>toLowerCase\<close> on one Latin-1 code unit: A-Z and the capital letters U+00C0 to U+00DE
  (the sign U+00D7 apart) move up by 32.
\<close>

definition to_lower_char :: "char \<Rightarrow> char" where
  "to_lower_char c = (let n = (of_char c :: int)
     in if (65 \<le> n \<and> n \<le> 90) \<or> (192 \<le> n \<and> n \<le> 222 \<and> n \<noteq> 215) then char_of (n + 32) else c)"

fun toLowerCase :: "string \<Rightarrow> string" where
  "toLowerCase [] = []"
| "toLowerCase (c # cs) = to_lower_char c # toLowerCase cs"

text \<open>
  The canonical form under which a regular expression with the flag \<open>i\<close> (and without
  \<open>u\<close>) compares characters: the upper-case code unit. U+00FF and U+00B5 go to code
  units beyond Latin-1, U+00DF stays.
\<close>

definition canonicalize :: "char \<Rightarrow> int" where
  "canonicalize c = (let n = (of_char c :: int)
     in if (97 \<le> n \<and> n \<le> 122) \<or> (224 \<le> n \<and> n \<le> 254 \<and> n \<noteq> 247) then n - 32
        else if n = 255 then 376
        else if n = 181 then 924
        else n)"

text \<open>\<open>String.prototype.trim\<close>: leading whitespace first, then trailing whitespace, which
  is held back in \<open>pending\<close> until a later character shows that it is not trailing.\<close>

fun trim_start :: "string \<Rightarrow> string"
  and trim_start_step :: "bool \<Rightarrow> char \<Rightarrow> string \<Rightarrow> string" where
  "trim_start [] = []"
| "trim_start (c # cs) = trim_start_step (is_space c) c cs"
| "trim_start_step True c cs = trim_start cs"
| "trim_start_step False c cs = c # cs"

fun trim_end :: "string \<Rightarrow> string \<Rightarrow> string"
  and trim_end_step :: "bool \<Rightarrow> string \<Rightarrow> char \<Rightarrow> string \<Rightarrow> string" where
  "trim_end pending [] = []"
| "trim_end pending (c # cs) = trim_end_step (is_space c) pending c cs"
| "trim_end_step True pending c cs = trim_end (c # pending) cs"
| "trim_end_step False pending c cs = rev pending @ c # trim_end [] cs"

definition trim :: "string \<Rightarrow> string" where
  "trim s = trim_end [] (trim_start s)"

text \<open>\<open>Array.prototype.filter\<close>.\<close>

fun filter_js :: "('a \<Rightarrow> bool) \<Rightarrow> 'a list \<Rightarrow> 'a list"
  and filter_step :: "bool \<Rightarrow> ('a \<Rightarrow> bool) \<Rightarrow> 'a \<Rightarrow> 'a list \<Rightarrow> 'a list" where
  "filter_js keep [] = []"
| "filter_js keep (x # xs) = filter_step (keep x) keep x xs"
| "filter_step True keep x xs = x # filter_js keep xs"
| "filter_step False keep x xs = filter_js keep xs"

fun startsWith :: "string \<Rightarrow> string \<Rightarrow> bool"
  and startsWith_step :: "bool \<Rightarrow> string \<Rightarrow> string \<Rightarrow> bool" where
  "startsWith s [] = True"
| "startsWith [] (p # ps) = False"
| "startsWith (c # cs) (p # ps) = startsWith_step (c = p) cs ps"
| "startsWith_step True cs ps = startsWith cs ps"
| "startsWith_step False cs ps = False"

text \<open>\<open>String.prototype.includes\<close>.\<close>

fun includes_str :: "string \<Rightarrow> string \<Rightarrow> bool"
  and includes_step :: "bool \<Rightarrow> string \<Rightarrow> string \<Rightarrow> bool" where
  "includes_str [] pat = startsWith [] pat"
| "includes_str (c # cs) pat = includes_step (startsWith (c # cs) pat) cs pat"
| "includes_step True cs pat = True"
| "includes_step False cs pat = includes_str cs pat"

text \<open>
  \<open>split\<close> with a separator of the form \<open>/[class]+/\<close>: every maximal run of separator
  characters is one separator, and a separator at either end leaves an empty field there.
  The arguments are the class, whether the previous character was a separator, the
  field being read (reversed) and the rest of the input.
\<close>

fun split_runs :: "(char \<Rightarrow> bool) \<Rightarrow> bool \<Rightarrow> string \<Rightarrow> string \<Rightarrow> string list"
  and split_runs_step ::
    "bool \<Rightarrow> (char \<Rightarrow> bool) \<Rightarrow> bool \<Rightarrow> string \<Rightarrow> char \<Rightarrow> string \<Rightarrow> string list" where
  "split_runs sep inSep cur [] = [rev cur]"
| "split_runs sep inSep cur (c # cs) = split_runs_step (sep c) sep inSep cur c cs"
| "split_runs_step True sep True cur c cs = split_runs sep True [] cs"
| "split_runs_step True sep False cur c cs = rev cur # split_runs sep True [] cs"
| "split_runs_step False sep inSep cur c cs = split_runs sep False (c # cur) cs"

definition split_regex :: "(char \<Rightarrow> bool) \<Rightarrow> string \<Rightarrow> string list" where
  "split_regex sep s = split_runs sep False [] s"

text \<open>\<open>split\<close> with a one-character string as separator: every occurrence splits.\<close>

fun split_chars :: "char \<Rightarrow> string \<Rightarrow> string \<Rightarrow> string list"
  and split_chars_step :: "bool \<Rightarrow> char \<Rightarrow> string \<Rightarrow> char \<Rightarrow> string \<Rightarrow> string list" where
  "split_chars sep cur [] = [rev cur]"
| "split_chars sep cur (c # cs) = split_chars_step (c = sep) sep cur c cs"
| "split_chars_step True sep cur c cs = rev cur # split_chars sep [] cs"
| "split_chars_step False sep cur c cs = split_chars sep (c # cur) cs"

definition split_char :: "char \<Rightarrow> string \<Rightarrow> string list" where
  "split_char sep s = split_chars sep [] s"

text \<open>\<open>Array.prototype.slice(-n)\<close>: the last \<open>n\<close> elements, all of them if there are fewer.\<close>

definition slice_last :: "nat \<Rightarrow> 'a list \<Rightarrow> 'a list" where
  "slice_last n xs = drop (length xs - n) xs"

subsection \<open>Regular expressions\<close>

text \<open>
  The fragment of regular expressions the scorer uses: literals (compared under the flag
  \<open>i\<close>), \<open>\d+\<close> and \<open>\s*\<close>, sequence, alternation and the word boundary \<open>\b\<close>. A position
  in the input is the character before it, if any, and the input from there on. The
  matcher returns the positions at which a match can end, in the order in which the
  backtracking matcher of JavaScript tries them (earlier alternative first, longer
  repetition first).
\<close>

datatype cclass = Digit | Space

datatype regex =
    Lit string
  | Plus1 cclass
  | Star0 cclass
  | Seq regex regex
  | Alt "regex list"
  | WordB

type_synonym position = "char option \<times> string"

fun in_class :: "cclass \<Rightarrow> char \<Rightarrow> bool" where
  "in_class Digit c = is_digit c"
| "in_class Space c = is_space c"

fun lit_match :: "string \<Rightarrow> char option \<Rightarrow> string \<Rightarrow> position list"
  and lit_step :: "bool \<Rightarrow> string \<Rightarrow> char \<Rightarrow> string \<Rightarrow> position list" where
  "lit_match [] prev rest = [(prev, rest)]"
| "lit_match (p # ps) prev [] = []"
| "lit_match (p # ps) prev (c # cs) = lit_step (canonicalize p = canonicalize c) ps c cs"
| "lit_step True ps c cs = lit_match ps (Some c) cs"
| "lit_step False ps c cs = []"

fun star_match :: "cclass \<Rightarrow> char option \<Rightarrow> string \<Rightarrow> position list"
  and star_step :: "bool \<Rightarrow> cclass \<Rightarrow> char option \<Rightarrow> char \<Rightarrow> string \<Rightarrow> position list" where
  "star_match cls prev [] = [(prev, [])]"
| "star_match cls prev (c # cs) = star_step (in_class cls c) cls prev c cs"
| "star_step True cls prev c cs = star_match cls (Some c) cs @ [(prev, c # cs)]"
| "star_step False cls prev c cs = [(prev, c # cs)]"

fun plus_step :: "bool \<Rightarrow> cclass \<Rightarrow> char \<Rightarrow> string \<Rightarrow> position list" where
  "plus_step True cls c cs = star_match cls (Some c) cs"
| "plus_step False cls c cs = []"

fun plus_match :: "cclass \<Rightarrow> char option \<Rightarrow> string \<Rightarrow> position list" where
  "plus_match cls prev [] = []"
| "plus_match cls prev (c # cs) = plus_step (in_class cls c) cls c cs"

fun word_before :: "char option \<Rightarrow> bool" where
  "word_before None = False"
| "word_before (Some a) = is_word a"

fun word_after :: "string \<Rightarrow> bool" where
  "word_after [] = False"
| "word_after (c # cs) = is_word c"

fun boundary_step :: "bool \<Rightarrow> position \<Rightarrow> position list" where
  "boundary_step True pos = [pos]"
| "boundary_step False pos = []"

fun rmatch :: "regex \<Rightarrow> position \<Rightarrow> position list"
  and rmatch_alts :: "regex list \<Rightarrow> position \<Rightarrow> position list"
  and rmatch_each :: "regex \<Rightarrow> position list \<Rightarrow> position list" where
  "rmatch (Lit w) (prev, rest) = lit_match w prev rest"
| "rmatch (Plus1 cls) (prev, rest) = plus_match cls prev rest"
| "rmatch (Star0 cls) (prev, rest) = star_match cls prev rest"
| "rmatch (Seq a b) pos = rmatch_each b (rmatch a pos)"
| "rmatch (Alt rs) pos = rmatch_alts rs pos"
| "rmatch WordB (prev, rest) = boundary_step (word_before prev \<noteq> word_after rest) (prev, rest)"
| "rmatch_alts [] pos = []"
| "rmatch_alts (r # rs) pos = rmatch r pos @ rmatch_alts rs pos"
| "rmatch_each b [] = []"
| "rmatch_each b (pos # others) = rmatch b pos @ rmatch_each b others"

text \<open>\<open>RegExp.prototype.test\<close> on a fresh expression: is there a match at some position.\<close>

fun test_from :: "regex \<Rightarrow> char option \<Rightarrow> string \<Rightarrow> bool"
  and test_step :: "position list \<Rightarrow> regex \<Rightarrow> char \<Rightarrow> string \<Rightarrow> bool" where
  "test_from r prev [] = (rmatch r (prev, []) \<noteq> [])"
| "test_from r prev (c # cs) = test_step (rmatch r (prev, c # cs)) r c cs"
| "test_step (pos # others) r c cs = True"
| "test_step [] r c cs = test_from r (Some c) cs"

definition regex_test :: "regex \<Rightarrow> string \<Rightarrow> bool" where
  "regex_test r s = test_from r None s"

text \<open>
  The number of matches \<open>String.prototype.match\<close> returns under the flag \<open>g\<close>: the
  leftmost match is taken, the search resumes where it ended (one character further
  after an empty match). \<open>skip\<close> counts the characters still inside the last match.
\<close>

fun count_from :: "regex \<Rightarrow> nat \<Rightarrow> char option \<Rightarrow> string \<Rightarrow> nat"
  and count_step :: "position list \<Rightarrow> regex \<Rightarrow> char \<Rightarrow> string \<Rightarrow> nat" where
  "count_from r skip prev [] = (if skip = 0 \<and> rmatch r (prev, []) \<noteq> [] then 1 else 0)"
| "count_from r (Suc skip) prev (c # cs) = count_from r skip (Some c) cs"
| "count_from r 0 prev (c # cs) = count_step (rmatch r (prev, c # cs)) r c cs"
| "count_step [] r c cs = count_from r 0 (Some c) cs"
| "count_step (pos # others) r c cs =
     1 + count_from r (length (c # cs) - length (snd pos) - 1) (Some c) cs"

definition match_count :: "regex \<Rightarrow> string \<Rightarrow> nat" where
  "match_count r s = count_from r 0 None s"

subsection \<open>The local scorer\<close>

text \<open>The four expressions of \<open>calculateRealisticScore\<close> (lines 144-147).\<close>

definition specificExamplesRe :: regex where
  "specificExamplesRe = Seq WordB (Seq (Alt [Lit ''example'', Lit ''instance'', Lit ''situation'',
     Lit ''time when'', Lit ''experience'', Lit ''project'', Lit ''when I'', Lit ''I worked'',
     Lit ''I handled'', Lit ''I managed'']) WordB)"

definition quantifiableResultsRe :: regex where
  "quantifiableResultsRe = Seq WordB (Seq (Alt [
     Seq (Plus1 Digit) (Lit ''%''),
     Seq (Plus1 Digit) (Seq (Star0 Space) (Lit ''percent'')),
     Seq (Lit ''$'') (Plus1 Digit),
     Lit ''increased'', Lit ''decreased'', Lit ''improved'', Lit ''reduced'', Lit ''achieved'',
     Lit ''saved'', Lit ''gained'', Lit ''grew'', Lit ''doubled'', Lit ''tripled'',
     Seq (Plus1 Digit) (Seq (Star0 Space) (Alt [Lit ''users'', Lit ''customers'', Lit ''sales'',
       Lit ''revenue'', Lit ''efficiency'']))]) WordB)"

definition starStructureRe :: regex where
  "starStructureRe = Alt [Lit ''situation'', Lit ''task'', Lit ''action'', Lit ''result'',
     Lit ''challenge'', Lit ''problem'', Lit ''solution'', Lit ''outcome'']"

definition technicalTermsRe :: regex where
  "technicalTermsRe = Seq WordB (Seq (Alt [Lit ''developed'', Lit ''designed'', Lit ''implemented'',
     Lit ''managed'', Lit ''led'', Lit ''created'', Lit ''optimized'', Lit ''solved'',
     Lit ''programmed'', Lit ''architected'', Lit ''deployed'', Lit ''maintained'', Lit ''debugged'',
     Lit ''tested'', Lit ''analyzed'']) WordB)"

definition hasSpecificExamples :: "string \<Rightarrow> bool" where
  "hasSpecificExamples trimmedAnswer = regex_test specificExamplesRe trimmedAnswer"

definition hasQuantifiableResults :: "string \<Rightarrow> bool" where
  "hasQuantifiableResults trimmedAnswer = regex_test quantifiableResultsRe trimmedAnswer"

definition hasSTARStructure :: "string \<Rightarrow> bool" where
  "hasSTARStructure trimmedAnswer = regex_test starStructureRe trimmedAnswer"

definition technicalTerms :: "string \<Rightarrow> nat" where
  "technicalTerms trimmedAnswer = match_count technicalTermsRe trimmedAnswer"

text \<open>\<open>words\<close>, \<open>wordCount\<close>, \<open>sentenceCount\<close> and \<open>avgWordsPerSentence\<close> (lines 110-113).\<close>

definition wordsOf :: "string \<Rightarrow> string list" where
  "wordsOf trimmedAnswer = filter_js (\<lambda>word. length word > 1) (split_regex is_space trimmedAnswer)"

definition wordCountOf :: "string \<Rightarrow> nat" where
  "wordCountOf trimmedAnswer = length (wordsOf trimmedAnswer)"

definition sentenceCountOf :: "string \<Rightarrow> nat" where
  "sentenceCountOf trimmedAnswer =
     length (filter_js (\<lambda>s. length (trim s) > 2) (split_regex is_sentence_end trimmedAnswer))"

definition avgWordsPerSentence :: "nat \<Rightarrow> nat \<Rightarrow> real" where
  "avgWordsPerSentence wordCount sentenceCount =
     (if sentenceCount > 0 then real wordCount / real sentenceCount else 0)"

text \<open>
  The components (lines 150-182). The nonverbal component is a sum of integers, which
  \<open>Math.round\<close> leaves as it is; its averages are the exact ones, see
  \<open>nonverbalScore\<close>.
\<close>

definition clarityScore :: "nat \<Rightarrow> int" where
  "clarityScore wordCount =
     (if wordCount \<ge> 20 then 10 else 0) + (if wordCount \<ge> 40 then 10 else 0)
       + (if wordCount \<ge> 60 then 10 else 0)"

definition structureScore :: "nat \<Rightarrow> real \<Rightarrow> string \<Rightarrow> int" where
  "structureScore sentenceCount avgWords trimmedAnswer =
     (if sentenceCount \<ge> 2 then 5 else 0)
       + (if avgWords \<ge> 8 \<and> avgWords \<le> 25 then 10 else 0)
       + (if includes_str trimmedAnswer '','' \<or> includes_str trimmedAnswer '';'' then 5 else 0)"

text \<open>The structure component of a trimmed answer, with the counts the scorer passes.\<close>

definition structureOf :: "string \<Rightarrow> int" where
  "structureOf trimmedAnswer =
     structureScore (sentenceCountOf trimmedAnswer)
       (avgWordsPerSentence (wordCountOf trimmedAnswer) (sentenceCountOf trimmedAnswer))
       trimmedAnswer"

definition timingScore :: "real \<Rightarrow> int" where
  "timingScore responseTime =
     (if responseTime < 5 then 0
      else if responseTime < 15 then 5
      else if responseTime \<ge> 20 \<and> responseTime \<le> 120 then 15
      else if responseTime \<le> 180 then 10
      else 5)"

text \<open>
  A facial-analysis result as the telemetry channel delivers it; a property may be
  missing, and \<open>entry.data.confidence || 0\<close> then reads 0. A history entry carries the
  time of its arrival.
\<close>

record facial_data =
  fd_confidence :: "real option"
  fd_engagement :: "real option"
  fd_eye_contact :: "real option"

record 'a sample =
  timestamp :: nat
  data :: 'a

definition orZero :: "real option \<Rightarrow> real" where
  "orZero v = (case v of Some x \<Rightarrow> x | None \<Rightarrow> 0)"

text \<open>\<open>entries.reduce((sum, entry) => sum + (f(entry.data) || 0), 0) / entries.length\<close>.\<close>

definition averageOf :: "(facial_data \<Rightarrow> real option) \<Rightarrow> facial_data sample list \<Rightarrow> real" where
  "averageOf f entries =
     foldl (\<lambda>sum entry. sum + orZero (f (data entry))) 0 entries / real (length entries)"

text \<open>
  The averages are exact, those of JavaScript are rounded: for the two values 0.4 and 0.8
  the exact average is 0.6, which does not exceed 0.6, where JavaScript computes
  0.6000000000000001 and awards the points. The model and the code can differ in this
  way only when an exact average is 0.6 up to rounding.
\<close>

definition nonverbalScore :: "facial_data sample list \<Rightarrow> int" where
  "nonverbalScore facial =
     (if length facial > 0
      then (let recentFacial = slice_last 10 facial
            in (if averageOf fd_confidence recentFacial > 0.6 then 5 else 0)
               + (if averageOf fd_engagement recentFacial > 0.6 then 5 else 0)
               + (if averageOf fd_eye_contact recentFacial > 0.6 then 5 else 0))
      else 0)"

text \<open>The two penalty conditions (lines 198 and 202).\<close>

definition hasHedging :: "string \<Rightarrow> bool" where
  "hasHedging trimmedAnswer =
     (includes_str (toLowerCase trimmedAnswer) ''i dont know''
        \<or> includes_str (toLowerCase trimmedAnswer) ''not sure'')"

definition lowercaseWords :: "string \<Rightarrow> nat" where
  "lowercaseWords trimmedAnswer =
     length (filter_js (\<lambda>word. word = toLowerCase word) (split_char CHR '' '' trimmedAnswer))"

definition lacksCapitalization :: "string \<Rightarrow> nat \<Rightarrow> bool" where
  "lacksCapitalization trimmedAnswer wordCount =
     (real (lowercaseWords trimmedAnswer) > real wordCount * 0.8)"

text \<open>
  The total (lines 185-214): the four components and the quality bonuses are added, the
  two penalties applied, then the caps and the final range. The product by 0.7 is the
  exact one. The sums that can reach it are the multiples of 5 from 0 to 115, and on these
  the floor of the IEEE product is the floor of the exact product except at 90, where
  JavaScript computes 62.99999999999999 and so 62 instead of 63; the floor of the IEEE
  product is monotone like the exact one.
\<close>

definition qualityBonuses :: "nat \<Rightarrow> bool \<Rightarrow> bool \<Rightarrow> bool \<Rightarrow> nat \<Rightarrow> int" where
  "qualityBonuses wordCount examples quantifiable star terms =
     (if examples \<and> wordCount \<ge> 30 then 10 else 0)
       + (if quantifiable \<and> wordCount \<ge> 25 then 10 else 0)
       + (if star \<and> wordCount \<ge> 40 then 10 else 0)
       + (if terms \<ge> 2 \<and> wordCount \<ge> 35 then 5 else 0)"

definition applyPenalties :: "bool \<Rightarrow> bool \<Rightarrow> int \<Rightarrow> int" where
  "applyPenalties hedging uncapitalized points =
     (let t1 = (if hedging then \<lfloor>real_of_int points * 0.7\<rfloor> else points)
      in if uncapitalized then t1 - 5 else t1)"

definition applyCaps :: "nat \<Rightarrow> bool \<Rightarrow> bool \<Rightarrow> bool \<Rightarrow> int \<Rightarrow> int" where
  "applyCaps wordCount examples quantifiable star points =
     (let t1 = (if wordCount < 20 then min points 35 else points);
          t2 = (if wordCount < 30 \<and> \<not> examples then min t1 45 else t1);
          t3 = (if \<not> examples \<and> \<not> quantifiable \<and> \<not> star then min t2 50 else t2)
      in max 0 (min 100 t3))"

definition totalScoreOf ::
  "nat \<Rightarrow> int \<Rightarrow> int \<Rightarrow> int \<Rightarrow> int \<Rightarrow> bool \<Rightarrow> bool \<Rightarrow> bool \<Rightarrow> nat \<Rightarrow> bool \<Rightarrow> bool \<Rightarrow> int" where
  "totalScoreOf wordCount clarity structure timing nonverbal examples quantifiable star terms
      hedging uncapitalized =
     applyCaps wordCount examples quantifiable star
       (applyPenalties hedging uncapitalized
          (clarity + structure + timing + nonverbal
             + qualityBonuses wordCount examples quantifiable star terms))"

record local_evaluation =
  score :: int
  feedback :: string
  strengths :: "string list"
  improvements :: "string list"

definition feedbackFor :: "int \<Rightarrow> string" where
  "feedbackFor totalScore' =
     (if totalScore' \<ge> 85
        then ''Excellent response! Strong content with specific examples and clear impact.''
      else if totalScore' \<ge> 70
        then ''Good response with solid content. Could be enhanced with more specific examples.''
      else if totalScore' \<ge> 50
        then ''Adequate start, but needs more depth, examples, and structure to be compelling.''
      else if totalScore' \<ge> 25
        then ''Basic attempt, but significantly lacks detail and specific examples. Needs major improvement.''
      else ''Insufficient response. Focus on providing detailed answers with concrete examples from your experience.'')"

text \<open>The branch for answers of 15 words and more (lines 143-267).\<close>

definition fullEvaluation ::
  "string \<Rightarrow> nat \<Rightarrow> nat \<Rightarrow> real \<Rightarrow> real \<Rightarrow> facial_data sample list \<Rightarrow> local_evaluation" where
  "fullEvaluation trimmedAnswer wordCount sentenceCount avgWords responseTime facial =
     (let examples = hasSpecificExamples trimmedAnswer;
          quantifiable = hasQuantifiableResults trimmedAnswer;
          star = hasSTARStructure trimmedAnswer;
          terms = technicalTerms trimmedAnswer;
          clarity = clarityScore wordCount;
          timing = timingScore responseTime;
          nonverbal = nonverbalScore facial;
          points = totalScoreOf wordCount clarity
                    (structureScore sentenceCount avgWords trimmedAnswer) timing nonverbal
                    examples quantifiable star terms (hasHedging trimmedAnswer)
                    (lacksCapitalization trimmedAnswer wordCount);
          strengths0 =
            (if examples \<and> wordCount \<ge> 25 then [''Used specific examples to support your answer''] else [])
            @ (if quantifiable \<and> wordCount \<ge> 20 then [''Included measurable results and impact''] else [])
            @ (if star \<and> wordCount \<ge> 30 then [''Followed a structured approach (STAR method)''] else [])
            @ (if wordCount \<ge> 50 \<and> clarity \<ge> 20 then [''Provided comprehensive and detailed response''] else [])
            @ (if nonverbal \<ge> 10 then [''Demonstrated confidence through body language''] else [])
            @ (if terms \<ge> 2 then [''Used relevant technical terminology effectively''] else [])
            @ (if timing \<ge> 10 then [''Took appropriate time to think through the response''] else []);
          improvements0 =
            (if wordCount < 20 then [''Expand your answers with significantly more detail and depth''] else [])
            @ (if wordCount \<ge> 20 \<and> wordCount < 40
               then [''Provide more comprehensive explanations with additional context''] else [])
            @ (if \<not> examples then [''Include concrete examples from your actual experience''] else [])
            @ (if \<not> quantifiable then [''Add measurable outcomes and impact of your work''] else [])
            @ (if \<not> star
               then [''Structure responses using STAR method (Situation, Task, Action, Result)''] else [])
            @ (if responseTime < 10 then [''Take more time to think and plan your response''] else [])
            @ (if responseTime > 150 then [''Work on being more concise while maintaining detail''] else [])
            @ (if nonverbal < 5 then [''Maintain better eye contact and show more engagement''] else [])
            @ (if terms = 0 \<and> wordCount > 15
               then [''Include more specific technical terminology relevant to the role''] else []);
          strengths1 =
            (if length strengths0 = 0 \<and> wordCount > 0
             then strengths0 @ [''Made an attempt to answer the question''] else strengths0);
          improvements1 =
            (if length improvements0 = 0 \<and> points < 85
             then improvements0 @ [''Continue practicing to refine your interview responses'']
             else improvements0)
      in \<lparr> score = points, feedback = feedbackFor points, strengths = strengths1,
           improvements = improvements1 \<rparr>)"

text \<open>
  \<open>calculateRealisticScore\<close> (lines 108-268). The facial history it reads from the
  component state and the value of \<open>Math.random()\<close>, a real in \<open>[0, 1)\<close>, are arguments;
  the question is an argument the source never reads.
\<close>

definition calculateRealisticScore ::
  "string \<Rightarrow> real \<Rightarrow> string option \<Rightarrow> facial_data sample list \<Rightarrow> real \<Rightarrow> local_evaluation" where
  "calculateRealisticScore answer responseTime question facial random =
     (let trimmedAnswer = trim answer;
          wordCount = wordCountOf trimmedAnswer;
          sentenceCount = sentenceCountOf trimmedAnswer;
          avgWords = avgWordsPerSentence wordCount sentenceCount
      in if wordCount = 0 \<or> length trimmedAnswer < 3 then
           \<lparr> score = 0,
             feedback = ''No meaningful response provided. Please answer the question with specific details.'',
             strengths = [],
             improvements = [''Provide a complete answer to the question'',
               ''Use specific examples from your experience'', ''Speak clearly and confidently''] \<rparr>
         else if wordCount < 5 then
           \<lparr> score = \<lfloor>random * 10\<rfloor> + 5,
             feedback = ''Response is too brief and lacks substance. Elaborate with specific examples.'',
             strengths = [''Attempted to answer''],
             improvements = [''Provide much more detail'', ''Include specific examples'',
               ''Explain your thought process'',
               ''Use the STAR method (Situation, Task, Action, Result)''] \<rparr>
         else if wordCount < 15 then
           \<lparr> score = \<lfloor>random * 20\<rfloor> + 10,
             feedback = ''Response needs significant development. Add more detail and examples.'',
             strengths = (if wordCount > 8 then [''Provided a basic answer''] else []),
             improvements = [''Expand your answer with more detail'', ''Include specific examples'',
               ''Explain the impact of your actions''] \<rparr>
         else fullEvaluation trimmedAnswer wordCount sentenceCount avgWords responseTime facial)"

text \<open>The object of the local scorer, seen as the \<open>any\<close> that the merge step receives.\<close>

definition asEvaluation :: "local_evaluation \<Rightarrow> evaluation" where
  "asEvaluation r = \<lparr> ev_score = Some (real_of_int (score r)), ev_feedback = feedback r,
     ev_strengths = strengths r, ev_improvements = improvements r \<rparr>"

subsection \<open>Component state and handlers\<close>

text \<open>One entry of \<open>analysisHistory.responses\<close>.\<close>

record response =
  r_question :: "string option"
  r_answer :: string
  r_score :: real
  r_duration :: real
  r_timestamp :: nat

text \<open>The metric bag of a voice-analysis result.\<close>

type_synonym voice_data = "(string \<times> real) list"

datatype recorder_state = Inactive | Recording

datatype timer_action = EndInterview | GenerateNewQuestion

text \<open>
  The hooks of the component. \<open>currentQuestion\<close> is \<open>None\<close> when the state holds
  \<open>undefined\<close>; \<open>jobRole\<close> is the constant read from the URL; times are milliseconds;
  an audio chunk is its size. \<open>alerts\<close> collects what \<open>alert\<close> has shown to the user,
  \<open>timers\<close> what \<open>setTimeout\<close> has scheduled (delay and action), and
  \<open>navigatedToReport\<close> is set by the \<open>navigate\<close> at the end of \<open>endInterview\<close>.
\<close>

record session =
  jobRole :: string
  currentQuestion :: "string option"
  isRecording :: bool
  isRecordingRef :: bool
  isListening :: bool
  currentAnswer :: string
  interviewStarted :: bool
  questionStartTime :: "nat option"
  currentQuestionNumber :: int
  facialAnalysisData :: "facial_data option"
  voiceAnalysisData :: "voice_data option"
  facialHistory :: "facial_data sample list"
  voiceHistory :: "voice_data sample list"
  responses :: "response list"
  interviewScore :: InterviewScore
  mediaRecorder :: "recorder_state option"
  audioChunks :: "nat list"
  alerts :: "string list"
  timers :: "(nat \<times> timer_action) list"
  navigatedToReport :: bool

definition initialSession :: "string \<Rightarrow> session" where
  "initialSession role = \<lparr> jobRole = role, currentQuestion = Some [], isRecording = False,
     isRecordingRef = False, isListening = False, currentAnswer = [], interviewStarted = False,
     questionStartTime = None, currentQuestionNumber = 0, facialAnalysisData = None,
     voiceAnalysisData = None, facialHistory = [], voiceHistory = [], responses = [],
     interviewScore = initialScore, mediaRecorder = None, audioChunks = [], alerts = [],
     timers = [], navigatedToReport = False \<rparr>"

text \<open>
  The outcome of a \<open>fetch\<close> followed by \<open>response.json()\<close>: the promise rejects (a
  network error, or a request the browser gave up on), or a response arrives with its
  status and its body, \<open>None\<close> when the body does not parse.
\<close>

datatype 'a fetch_result = Rejected | HttpResponse nat "'a option"

definition response_ok :: "nat \<Rightarrow> bool" where
  "response_ok status = (200 \<le> status \<and> status \<le> 299)"

text \<open>The body the \<open>try\<close> block goes on with; \<open>None\<close> when it throws.\<close>

fun fetched :: "'a fetch_result \<Rightarrow> 'a option" where
  "fetched Rejected = None"
| "fetched (HttpResponse status body) = (if response_ok status then body else None)"

text \<open>
  The facial-analysis handler (lines 289-315): the history keeps the last 50 entries, and
  the averages over the last 20 are written to the score. The voice-analysis handler
  (lines 317-319) stores the latest result.
\<close>

definition onFacialAnalysis :: "facial_data \<Rightarrow> nat \<Rightarrow> session \<Rightarrow> session" where
  "onFacialAnalysis d now s =
     (let s1 = s \<lparr> facialAnalysisData := Some d,
                   facialHistory := slice_last 50 (facialHistory s @ [\<lparr> timestamp = now, data = d \<rparr>]) \<rparr>;
          recentFacial = slice_last 20 (facialHistory s1)
      in if length recentFacial > 0
         then s1 \<lparr> interviewScore := applyUpdate (interviewScore s1)
                      (FacialAverages (averageOf fd_confidence recentFacial)
                         (averageOf fd_engagement recentFacial)
                         (averageOf fd_eye_contact recentFacial)) \<rparr>
         else s1)"

definition onVoiceAnalysis :: "voice_data \<Rightarrow> session \<Rightarrow> session" where
  "onVoiceAnalysis d s = s \<lparr> voiceAnalysisData := Some d \<rparr>"

fun ingestFacial :: "session \<Rightarrow> (nat \<times> facial_data) list \<Rightarrow> session" where
  "ingestFacial s [] = s"
| "ingestFacial s ((now, d) # rest) = ingestFacial (onFacialAnalysis d now s) rest"

fun ingestVoice :: "session \<Rightarrow> voice_data list \<Rightarrow> session" where
  "ingestVoice s [] = s"
| "ingestVoice s (d # rest) = ingestVoice (onVoiceAnalysis d s) rest"

text \<open>
  \<open>endInterview\<close> (lines 454-540), as far as the state goes: the summary it writes to
  the session storage is not part of the model.
\<close>

definition endInterview :: "session \<Rightarrow> session" where
  "endInterview s = s \<lparr> isRecording := False, isListening := False, navigatedToReport := True \<rparr>"

text \<open>The five templates of \<open>generateNewQuestion\<close> (lines 598-604).\<close>

definition fallbackQuestions :: "string \<Rightarrow> string list" where
  "fallbackQuestions role =
     [''Tell me about a challenging situation in your '' @ role @ '' experience and how you handled it.'',
      ''What has been your most significant achievement relevant to the '' @ role @ '' role?'',
      ''How do you stay current with developments in your field as a '' @ role @ ''?'',
      ''Describe a time you had to collaborate cross-functionally to deliver a project. What was your approach?'',
      ''Where do you see yourself growing in the next 2 years in the '' @ role @ '' space?'']"

text \<open>
  The remainder \<open>a % b\<close> of JavaScript on integers, for \<open>b\<close> other than 0: it has the
  sign of \<open>a\<close>. Reading an array at an index: \<open>undefined\<close> outside the array.
\<close>

definition js_rem :: "int \<Rightarrow> int \<Rightarrow> int" where
  "js_rem a b = (if a < 0 then - ((- a) mod \<bar>b\<bar>) else a mod \<bar>b\<bar>)"

definition array_get :: "'a list \<Rightarrow> int \<Rightarrow> 'a option" where
  "array_get xs i = (if 0 \<le> i \<and> i < int (length xs) then Some (xs ! nat i) else None)"

definition fallbackQuestion :: "string \<Rightarrow> int \<Rightarrow> string option" where
  "fallbackQuestion role questionNumber =
     array_get (fallbackQuestions role)
       (js_rem (questionNumber - 1) (int (length (fallbackQuestions role))))"

text \<open>
  \<open>generateNewQuestion\<close> (lines 542-610). \<open>currentQuestionNumber\<close> is the value of
  the render in which the handler was created: the increment that the handler requests
  is not visible to it. The \<open>catch\<close> block runs when the request is rejected, when the
  status is not a success and when the body does not parse.
\<close>

definition generateNewQuestion :: "string fetch_result \<Rightarrow> nat \<Rightarrow> session \<Rightarrow> session" where
  "generateNewQuestion result now s =
     (if currentQuestionNumber s \<ge> int MAX_QUESTIONS then endInterview s
      else (let s1 = s \<lparr> currentQuestionNumber := currentQuestionNumber s + 1 \<rparr>
            in case fetched result of
                 Some question \<Rightarrow>
                   s1 \<lparr> currentQuestion := Some question, questionStartTime := Some now \<rparr>
               | None \<Rightarrow>
                   s1 \<lparr> currentQuestion := fallbackQuestion (jobRole s) (currentQuestionNumber s),
                        questionStartTime := Some now \<rparr>))"

definition startInterview :: "string fetch_result \<Rightarrow> nat \<Rightarrow> session \<Rightarrow> session" where
  "startInterview result now s =
     generateNewQuestion result now (s \<lparr> interviewStarted := True, questionStartTime := Some now \<rparr>)"

text \<open>
  \<open>startRecording\<close> (lines 699-746). \<open>getUserMedia\<close> grants the microphone, or the
  \<open>try\<close> block throws because it is denied; the speech recognition is absent, starts, or
  throws on \<open>start\<close>.
\<close>

datatype media_result = Granted | Denied

datatype recognition_start = NoRecognition | Starts | Throws

definition microphoneAlert :: string where
  "microphoneAlert = ''Unable to access microphone. Please check your browser permissions.''"

definition startRecording :: "media_result \<Rightarrow> recognition_start \<Rightarrow> session \<Rightarrow> session" where
  "startRecording media recognition s =
     (let s1 = s \<lparr> isRecording := True, isRecordingRef := True, currentAnswer := [],
                   audioChunks := [] \<rparr>
      in case media of
           Granted \<Rightarrow>
             (let s2 = s1 \<lparr> mediaRecorder := Some Recording \<rparr>
              in if recognition = Throws then s2 \<lparr> isListening := False \<rparr> else s2)
         | Denied \<Rightarrow>
             s1 \<lparr> isRecording := False, isRecordingRef := False,
                  alerts := alerts s1 @ [microphoneAlert] \<rparr>)"

text \<open>
  \<open>updateScoreWithEvaluation\<close> (lines 882-922) and \<open>proceedToNextStep\<close> (lines 835-846).
  The latter reads the score of the render, in which the answer just merged is not yet
  counted.
\<close>

definition updateScoreWithEvaluation :: "evaluation \<Rightarrow> real \<Rightarrow> nat \<Rightarrow> session \<Rightarrow> session" where
  "updateScoreWithEvaluation ev responseTime now s =
     s \<lparr> responses := responses s @
            [\<lparr> r_question = currentQuestion s, r_answer = trim (currentAnswer s),
               r_score = scoreOrZero ev, r_duration = responseTime, r_timestamp = now \<rparr>],
          interviewScore := applyUpdate (interviewScore s) (Merge ev responseTime) \<rparr>"

definition proceedToNextStep :: "InterviewScore \<Rightarrow> session \<Rightarrow> session" where
  "proceedToNextStep rendered s =
     (let totalQuestions = questionsAnswered rendered + 1 + questionsSkipped rendered
      in s \<lparr> currentAnswer := [], audioChunks := [],
             timers := timers s @
               [(2000, if totalQuestions \<ge> MAX_QUESTIONS then EndInterview else GenerateNewQuestion)] \<rparr>)"

definition elapsedSeconds :: "nat \<Rightarrow> session \<Rightarrow> real" where
  "elapsedSeconds now s =
     (case questionStartTime s of Some start \<Rightarrow> (real now - real start) / 1000 | None \<Rightarrow> 0)"

text \<open>The local scorer on the state of the render.\<close>

definition localEvaluation :: "string \<Rightarrow> real \<Rightarrow> real \<Rightarrow> session \<Rightarrow> evaluation" where
  "localEvaluation transcript responseTime random s =
     asEvaluation (calculateRealisticScore transcript responseTime (currentQuestion s)
       (facialHistory s) random)"

definition processTranscriptOnly :: "real \<Rightarrow> nat \<Rightarrow> session \<Rightarrow> session" where
  "processTranscriptOnly random now s =
     (let responseTime = elapsedSeconds now s;
          ev = localEvaluation (currentAnswer s) responseTime random s
      in proceedToNextStep (interviewScore s) (updateScoreWithEvaluation ev responseTime now s))"

text \<open>
  \<open>evaluateResponse\<close> (lines 848-880): the body of a successful response, and the local
  scorer on the same transcript and response time whenever the \<open>try\<close> block throws.
\<close>

definition evaluateResponse ::
  "evaluation fetch_result \<Rightarrow> string \<Rightarrow> real \<Rightarrow> real \<Rightarrow> session \<Rightarrow> evaluation" where
  "evaluateResponse result transcript responseTime random s =
     (case fetched result of
        Some ev \<Rightarrow> ev
      | None \<Rightarrow> localEvaluation transcript responseTime random s)"

text \<open>
  \<open>processAudioAndTranscript\<close> (lines 781-826). The voice analysis is requested only
  when there are audio chunks; if that request is rejected or its body does not parse,
  the \<open>catch\<close> block falls back to \<open>processTranscriptOnly\<close>.
\<close>

definition voiceAnalysisThrows :: "voice_data fetch_result \<Rightarrow> bool" where
  "voiceAnalysisThrows voice =
     (case voice of Rejected \<Rightarrow> True
      | HttpResponse status body \<Rightarrow> response_ok status \<and> body = None)"

definition processAudioAndTranscript ::
  "voice_data fetch_result \<Rightarrow> evaluation fetch_result \<Rightarrow> real \<Rightarrow> nat \<Rightarrow> session \<Rightarrow> session" where
  "processAudioAndTranscript voice result random now s =
     (if length (audioChunks s) = 0 \<and> trim (currentAnswer s) = [] then s
      else (let responseTime = elapsedSeconds now s
            in if length (audioChunks s) > 0 \<and> voiceAnalysisThrows voice
               then processTranscriptOnly random now s
               else (let ev = evaluateResponse result (currentAnswer s) responseTime random s
                     in proceedToNextStep (interviewScore s)
                          (updateScoreWithEvaluation ev responseTime now s))))"

text \<open>
  \<open>skipQuestion\<close> (lines 924-974): the next question is requested at once, or the end
  of the interview is scheduled.
\<close>

definition skipQuestion :: "string fetch_result \<Rightarrow> nat \<Rightarrow> session \<Rightarrow> session" where
  "skipQuestion result now s =
     (let s1 = s \<lparr> responses := responses s @
                     [\<lparr> r_question = currentQuestion s, r_answer = ''[SKIPPED]'', r_score = 0,
                        r_duration = 0, r_timestamp = now \<rparr>],
                   interviewScore := applyUpdate (interviewScore s) Skip \<rparr>;
          totalQuestions = questionsAnswered (interviewScore s)
                             + questionsSkipped (interviewScore s) + 1
      in if totalQuestions \<ge> MAX_QUESTIONS
         then s1 \<lparr> timers := timers s1 @ [(1000, EndInterview)] \<rparr>
         else generateNewQuestion result now s1)"

subsection \<open>Sample inputs\<close>

text \<open>
  Two answers of 60 countable words for the scenario of a STAR-structured answer with the
  phrase \<open>increased revenue by 20%\<close>: the second one also names the situation and has a
  comma. Two answers of 24 and 46 words that differ in length only. Two answers in lower
  case of 50 and 52 words, both of two sentences, of which the second has two more words
  at its end. A session in which a short answer has been recorded for the first question,
  twelve seconds after it was asked.
\<close>

definition scenarioB_plain :: string where
  "scenarioB_plain = ''The task was to grow our online store during the slow summer season last year. My action plan focused on better pricing and faster delivery for all of our customers. We increased revenue by 20% within three months and kept our team happy and motivated. The result was strong growth and the whole company adopted our new approach very quickly.''"

definition scenarioB_full :: string where
  "scenarioB_full = ''The situation was that our online store kept losing money during the slow summer season. My task was to find out why, so our team looked at every order from last year. We increased revenue by 20% within three months and kept our customers happy. The result was strong growth and the whole company adopted our new approach very quickly.''"

definition planAnswer :: string where
  "planAnswer = ''We planned the work in small steps, and each step was checked by the whole team. The plan worked well and we finished early.''"

definition planAnswerLonger :: string where
  "planAnswerLonger = ''We planned the work in small steps, and each step was checked by the whole team. The plan worked well and we finished early. After that we wrote down what went well, what went wrong, and what we would change for the next round of work.''"

definition teamAnswer :: string where
  "teamAnswer = ''we planned the work in small steps, and each step was checked by the whole team before we moved to the next part. the plan worked well and we finished early because everyone knew what to do, who to ask for help, and when each part had to be ready.''"

definition teamAnswerLonger :: string where
  "teamAnswerLonger = ''we planned the work in small steps, and each step was checked by the whole team before we moved to the next part. the plan worked well and we finished early because everyone knew what to do, who to ask for help, and when each part had to be ready for review.''"

definition answeredSession :: session where
  "answeredSession = initialSession ''Software Developer''
     \<lparr> currentQuestion := Some ''Tell me about yourself.'', interviewStarted := True,
       currentAnswer := ''I like tests very much'', questionStartTime := Some 0,
       currentQuestionNumber := 1 \<rparr>"

section \<open>Properties of the cumulative score\<close>

lemma totalScore_mergeScore:
  "totalScore (mergeScore x responseTime prev) = totalScore prev + x * 0.20"
  by (simp add: mergeScore_def Let_def)

lemma totalScore_skipScore_le:
  "totalScore (skipScore prev) \<le> max 0 (totalScore prev)"
proof -
  have "0 \<le> calculateSkipPenalty a b" for a b
    by (simp add: calculateSkipPenalty_def Let_def)
  then have "max 0 (totalScore prev - calculateSkipPenalty a b) \<le> max 0 (totalScore prev)" for a b
    by (smt (verit, best))
  then show ?thesis
    by (simp add: skipScore_def Let_def min_le_iff_disj)
qed

lemma totalScore_applyUpdate_le:
  "totalScore (applyUpdate prev u) \<le> max 0 (totalScore prev) + 0.20 * max 0 (mergedScore u)"
proof (cases u)
  case (Merge ev responseTime)
  then show ?thesis by (simp add: totalScore_mergeScore max_def)
next
  case Skip
  then show ?thesis using totalScore_skipScore_le [of prev] by simp
next
  case (FacialAverages a b c)
  then show ?thesis by simp
qed

lemma totalScore_runUpdates_le:
  "(\<And>u. u \<in> set us \<Longrightarrow> mergedScore u \<le> 100) \<Longrightarrow>
   totalScore (runUpdates prev us) \<le> max 0 (totalScore prev) + 20 * real (length (filter isMerge us))"
proof (induction us arbitrary: prev)
  case Nil
  then show ?case by (simp add: runUpdates_def)
next
  case (Cons u us)
  have step: "totalScore (applyUpdate prev u) \<le> max 0 (totalScore prev) + 0.20 * max 0 (mergedScore u)"
    by (rule totalScore_applyUpdate_le)
  have bound: "mergedScore u \<le> 100" using Cons.prems by simp
  have rest: "totalScore (runUpdates (applyUpdate prev u) us)
      \<le> max 0 (totalScore (applyUpdate prev u)) + 20 * real (length (filter isMerge us))"
    using Cons.IH [of "applyUpdate prev u"] Cons.prems by simp
  have nonmerge: "\<not> isMerge u \<Longrightarrow> mergedScore u = 0"
    by (cases u) simp_all
  show ?case
  proof (cases "isMerge u")
    case True
    then show ?thesis using step bound rest by (simp add: runUpdates_def max_def split: if_splits)
  next
    case False
    then show ?thesis using step nonmerge rest by (simp add: runUpdates_def max_def split: if_splits)
  qed
qed

text \<open>
  C1 (as amended). A session that starts from the initial score and merges exactly
  \<open>MAX_QUESTIONS\<close> evaluations, each with a score of at most 100, ends with a total of
  at most 100, whatever skips and facial updates come in between. The merge step itself
  applies no cap, so the bound on each score is needed.
\<close>

theorem totalScore_five_merges_le_100:
  assumes "length (filter isMerge us) = MAX_QUESTIONS"
    and "\<forall>u \<in> set us. mergedScore u \<le> 100"
  shows "totalScore (runUpdates initialScore us) \<le> 100"
proof -
  have "totalScore (runUpdates initialScore us)
      \<le> max 0 (totalScore initialScore) + 20 * real (length (filter isMerge us))"
    using assms(2) by (intro totalScore_runUpdates_le) simp
  then show ?thesis using assms(1) by (simp add: initialScore_def MAX_QUESTIONS_def)
qed

theorem totalScore_five_merges_le_100_witness:
  "length (filter isMerge (replicate 5 (Merge (evalWithScore 100) 30))) = MAX_QUESTIONS
   \<and> mergedScore (Merge (evalWithScore 100) 30) \<le> 100
   \<and> totalScore (runUpdates initialScore (replicate 5 (Merge (evalWithScore 100) 30))) \<le> 100"
proof -
  have a: "length (filter isMerge (replicate 5 (Merge (evalWithScore 100) 30))) = MAX_QUESTIONS"
    by (simp add: MAX_QUESTIONS_def)
  have c: "mergedScore (Merge (evalWithScore 100) 30) \<le> 100"
    by (simp add: evalWithScore_def scoreOrZero_def)
  then have b: "\<forall>u \<in> set (replicate 5 (Merge (evalWithScore 100) 30)). mergedScore u \<le> 100"
    by simp
  show ?thesis using a c totalScore_five_merges_le_100 [OF a b] by blast
qed

text \<open>
  C1 (as stated) fails: five merged evaluations whose score is 150, as a remote evaluator
  may return, leave a total of 150.
\<close>

theorem totalScore_five_merges_counterexample:
  "length (filter isMerge (replicate 5 (Merge (evalWithScore 150) 30))) = MAX_QUESTIONS
   \<and> totalScore (runUpdates initialScore (replicate 5 (Merge (evalWithScore 150) 30))) = 150
   \<and> \<not> totalScore (runUpdates initialScore (replicate 5 (Merge (evalWithScore 150) 30))) \<le> 100"
  by (simp add: MAX_QUESTIONS_def runUpdates_def numeral_eq_Suc initialScore_def
      mergeScore_def evalWithScore_def scoreOrZero_def Let_def)

lemma totalScore_skipScore:
  "totalScore (skipScore prev) =
     (if skipRateAfter prev \<ge> 0.6
      then min (max 0 (totalScore prev - calculateSkipPenalty (questionsSkipped prev + 1)
                  (questionsAnswered prev + (questionsSkipped prev + 1)))) 15
      else if skipRateAfter prev \<ge> 0.4
      then min (max 0 (totalScore prev - calculateSkipPenalty (questionsSkipped prev + 1)
                  (questionsAnswered prev + (questionsSkipped prev + 1)))) 35
      else max 0 (totalScore prev - calculateSkipPenalty (questionsSkipped prev + 1)
                  (questionsAnswered prev + (questionsSkipped prev + 1))))"
  unfolding skipScore_def skipRateAfter_def Let_def by simp

lemma penalty_steps_mono:
  fixes r1 r2 :: real
  assumes "r1 \<le> r2"
  shows "(if r1 \<ge> 0.8 then 50 else if r1 \<ge> 0.6 then 40 else if r1 \<ge> 0.4 then 30
          else if r1 \<ge> 0.2 then 20 else (12::real))
       \<le> (if r2 \<ge> 0.8 then 50 else if r2 \<ge> 0.6 then 40 else if r2 \<ge> 0.4 then 30
          else if r2 \<ge> 0.2 then 20 else 12)"
  using assms by auto

text \<open>
  C2. With a positive number of questions, the skip penalty is the step function 50, 40,
  30, 20, 12 of the skip rate at the thresholds 0.8, 0.6, 0.4 and 0.2, and it is monotone
  in the skip rate. A skip subtracts the penalty of the rate it results in, floored at
  0; if that rate is at least 0.8, and more generally at least 0.6, the resulting total is
  at most 15, and if it is at least 0.4 the total is at most 35.
\<close>

theorem skip_penalty_step_monotone_capped:
  assumes "0 < q1" and "0 < q2" and "real s1 / real q1 \<le> real s2 / real q2"
  shows "calculateSkipPenalty s1 q1 =
           (if real s1 / real q1 \<ge> 0.8 then 50 else if real s1 / real q1 \<ge> 0.6 then 40
            else if real s1 / real q1 \<ge> 0.4 then 30 else if real s1 / real q1 \<ge> 0.2 then 20
            else 12)
       \<and> calculateSkipPenalty s1 q1 \<le> calculateSkipPenalty s2 q2
       \<and> totalScore (skipScore prev)
           \<le> max 0 (totalScore prev
                 - calculateSkipPenalty (questionsSkipped prev + 1)
                     (questionsAnswered prev + (questionsSkipped prev + 1)))
       \<and> (skipRateAfter prev \<ge> 0.8 \<longrightarrow> totalScore (skipScore prev) \<le> 15)
       \<and> (skipRateAfter prev \<ge> 0.6 \<longrightarrow> totalScore (skipScore prev) \<le> 15)
       \<and> (skipRateAfter prev \<ge> 0.4 \<longrightarrow> totalScore (skipScore prev) \<le> 35)"
proof -
  have step: "calculateSkipPenalty s1 q1 =
           (if real s1 / real q1 \<ge> 0.8 then 50 else if real s1 / real q1 \<ge> 0.6 then 40
            else if real s1 / real q1 \<ge> 0.4 then 30 else if real s1 / real q1 \<ge> 0.2 then 20
            else 12)"
    using assms(1) by (simp add: calculateSkipPenalty_def Let_def)
  have step2: "calculateSkipPenalty s2 q2 =
           (if real s2 / real q2 \<ge> 0.8 then 50 else if real s2 / real q2 \<ge> 0.6 then 40
            else if real s2 / real q2 \<ge> 0.4 then 30 else if real s2 / real q2 \<ge> 0.2 then 20
            else 12)"
    using assms(2) by (simp add: calculateSkipPenalty_def Let_def)
  have mono: "calculateSkipPenalty s1 q1 \<le> calculateSkipPenalty s2 q2"
    unfolding step step2 by (rule penalty_steps_mono) (rule assms(3))
  have sub: "totalScore (skipScore prev)
           \<le> max 0 (totalScore prev
                 - calculateSkipPenalty (questionsSkipped prev + 1)
                     (questionsAnswered prev + (questionsSkipped prev + 1)))"
    by (simp add: totalScore_skipScore min_le_iff_disj)
  have cap15: "skipRateAfter prev \<ge> 0.6 \<Longrightarrow> totalScore (skipScore prev) \<le> 15"
    by (simp add: totalScore_skipScore)
  have cap15': "skipRateAfter prev \<ge> 0.8 \<Longrightarrow> totalScore (skipScore prev) \<le> 15"
    using cap15 by simp
  have cap35: "skipRateAfter prev \<ge> 0.4 \<Longrightarrow> totalScore (skipScore prev) \<le> 35"
    by (simp add: totalScore_skipScore min_le_iff_disj)
  show ?thesis using step mono sub cap15 cap15' cap35 by blast
qed

theorem skip_penalty_step_monotone_capped_witness:
  "(0::nat) < 5 \<and> real (1::nat) / real (5::nat) \<le> real (4::nat) / real (5::nat)
   \<and> calculateSkipPenalty 1 5 = 20 \<and> calculateSkipPenalty 4 5 = 50
   \<and> calculateSkipPenalty 1 5 \<le> calculateSkipPenalty 4 5
   \<and> skipRateAfter (initialScore \<lparr> totalScore := 60, questionsAnswered := 1, questionsSkipped := 3 \<rparr>) \<ge> 0.8
   \<and> totalScore (skipScore (initialScore \<lparr> totalScore := 60, questionsAnswered := 1, questionsSkipped := 3 \<rparr>)) = 10
   \<and> totalScore (skipScore (initialScore \<lparr> totalScore := 60, questionsAnswered := 1, questionsSkipped := 3 \<rparr>)) \<le> 15"
proof -
  have q: "(0::nat) < 5" by simp
  have r: "real (1::nat) / real (5::nat) \<le> real (4::nat) / real (5::nat)" by simp
  have rate: "skipRateAfter (initialScore \<lparr> totalScore := 60, questionsAnswered := 1, questionsSkipped := 3 \<rparr>) \<ge> 0.8"
    by (simp add: skipRateAfter_def initialScore_def)
  have v: "calculateSkipPenalty 1 5 = 20 \<and> calculateSkipPenalty 4 5 = 50"
    by (simp add: calculateSkipPenalty_def Let_def)
  have t: "totalScore (skipScore (initialScore \<lparr> totalScore := 60, questionsAnswered := 1, questionsSkipped := 3 \<rparr>)) = 10"
    by (simp add: skipScore_def calculateSkipPenalty_def initialScore_def Let_def)
  show ?thesis
    using q r rate v t
      skip_penalty_step_monotone_capped [OF q q r,
        of "initialScore \<lparr> totalScore := 60, questionsAnswered := 1, questionsSkipped := 3 \<rparr>"]
    by blast
qed

section \<open>Properties of the handlers\<close>

lemma interviewScore_endInterview: "interviewScore (endInterview s) = interviewScore s"
  by (simp add: endInterview_def)

lemma interviewScore_generateNewQuestion:
  "interviewScore (generateNewQuestion result now s) = interviewScore s"
  by (simp add: generateNewQuestion_def interviewScore_endInterview Let_def split: option.splits)

lemma interviewScore_skipQuestion:
  "interviewScore (skipQuestion result now s) = skipScore (interviewScore s)"
  by (simp add: skipQuestion_def interviewScore_generateNewQuestion Let_def)

text \<open>
  C10. The skip handler leaves \<open>questionsAnswered\<close>, \<open>averageResponseTime\<close> and
  \<open>eyeContact\<close> as they were; it adds one to \<open>questionsSkipped\<close> and lowers
  \<open>confidence\<close>, \<open>engagement\<close> and \<open>communication\<close> by 0.25, 0.20 and 0.15, each
  floored at 0.05.
\<close>

theorem skipQuestion_frame:
  "questionsAnswered (interviewScore (skipQuestion result now s)) = questionsAnswered (interviewScore s)
   \<and> averageResponseTime (interviewScore (skipQuestion result now s))
       = averageResponseTime (interviewScore s)
   \<and> eyeContact (interviewScore (skipQuestion result now s)) = eyeContact (interviewScore s)
   \<and> questionsSkipped (interviewScore (skipQuestion result now s))
       = questionsSkipped (interviewScore s) + 1
   \<and> confidence (interviewScore (skipQuestion result now s))
       = max 0.05 (confidence (interviewScore s) - 0.25)
   \<and> engagement (interviewScore (skipQuestion result now s))
       = max 0.05 (engagement (interviewScore s) - 0.20)
   \<and> communication (interviewScore (skipQuestion result now s))
       = max 0.05 (communication (interviewScore s) - 0.15)"
  by (simp add: interviewScore_skipQuestion skipScore_def Let_def)

subsection \<open>Telemetry histories\<close>

lemma slice_last_append_slice_last:
  "slice_last n (slice_last n xs @ ys) = slice_last n (xs @ ys)"
proof (cases "length xs \<le> n")
  case True
  then show ?thesis by (simp add: slice_last_def)
next
  case False
  then have len: "length (drop (length xs - n) xs) = n" by simp
  have "slice_last n (slice_last n xs @ ys)
      = drop (length ys) (drop (length xs - n) xs) @ drop (length ys - n) ys"
    using len by (simp add: slice_last_def)
  also have "\<dots> = drop (length xs + length ys - n) xs @ drop (length ys - n) ys"
    using False by (simp add: ac_simps)
  also have "\<dots> = slice_last n (xs @ ys)"
    using False by (simp add: slice_last_def)
  finally show ?thesis .
qed

lemma facialHistory_onFacialAnalysis:
  "facialHistory (onFacialAnalysis d now s)
     = slice_last 50 (facialHistory s @ [\<lparr> timestamp = now, data = d \<rparr>])"
  by (simp add: onFacialAnalysis_def Let_def)

lemma facialHistory_ingestFacial:
  "length (facialHistory s) \<le> 50 \<Longrightarrow>
   facialHistory (ingestFacial s xs)
     = slice_last 50 (facialHistory s @ map (\<lambda>(now, d). \<lparr> timestamp = now, data = d \<rparr>) xs)"
proof (induction xs arbitrary: s)
  case Nil
  then show ?case by (simp add: slice_last_def)
next
  case (Cons x xs)
  obtain now d where x: "x = (now, d)" by (cases x)
  have short: "length (facialHistory (onFacialAnalysis d now s)) \<le> 50"
    by (simp add: facialHistory_onFacialAnalysis slice_last_def)
  have "facialHistory (ingestFacial s (x # xs))
      = slice_last 50 (slice_last 50 (facialHistory s @ [\<lparr> timestamp = now, data = d \<rparr>])
          @ map (\<lambda>(now, d). \<lparr> timestamp = now, data = d \<rparr>) xs)"
    using Cons.IH [OF short] x by (simp add: facialHistory_onFacialAnalysis)
  also have "\<dots> = slice_last 50 ((facialHistory s @ [\<lparr> timestamp = now, data = d \<rparr>])
          @ map (\<lambda>(now, d). \<lparr> timestamp = now, data = d \<rparr>) xs)"
    by (simp only: slice_last_append_slice_last)
  also have "\<dots> = slice_last 50 (facialHistory s
          @ map (\<lambda>(now, d). \<lparr> timestamp = now, data = d \<rparr>) (x # xs))"
    using x by simp
  finally show ?case .
qed

text \<open>
  The facial history of a session holds at most 50 entries after any number of results;
  it is the last 50 of the results that arrived, in their order of arrival, and exactly
  50 once more than 50 have arrived.
\<close>

lemma facialHistory_most_recent:
  "facialHistory (ingestFacial (initialSession role) xs)
     = slice_last 50 (map (\<lambda>(now, d). \<lparr> timestamp = now, data = d \<rparr>) xs)"
  by (simp add: facialHistory_ingestFacial initialSession_def)

lemma facialHistory_bounded:
  "length (facialHistory (ingestFacial (initialSession role) xs)) \<le> 50"
  by (simp add: facialHistory_most_recent slice_last_def)

lemma facialHistory_full:
  "length xs > 50 \<Longrightarrow> length (facialHistory (ingestFacial (initialSession role) xs)) = 50"
  by (simp add: facialHistory_most_recent slice_last_def)

lemma voiceHistory_ingestVoice: "voiceHistory (ingestVoice s ds) = voiceHistory s"
  by (induction ds arbitrary: s) (simp_all add: onVoiceAnalysis_def)

text \<open>
  C3 (the voice half, which the code does not meet). The voice-analysis handler never
  appends to the voice history: whatever results arrive, 51 of them or more, the history
  of a session is still empty, where the specification keeps the last 50 results.
\<close>

theorem voiceHistory_stays_empty:
  "voiceHistory (ingestVoice (initialSession role) ds) = []
   \<and> length (voiceHistory (ingestVoice (initialSession role) (replicate 51 d))) = 0"
  by (simp add: voiceHistory_ingestVoice initialSession_def)

subsection \<open>Fallback questions\<close>

lemma fallbackQuestion_in_range:
  assumes "1 \<le> n" and "n \<le> 5"
  shows "fallbackQuestion role n = Some (fallbackQuestions role ! nat (n - 1))"
proof -
  have "js_rem (n - 1) 5 = n - 1" using assms by (simp add: js_rem_def)
  then show ?thesis using assms
    by (simp add: fallbackQuestion_def array_get_def fallbackQuestions_def)
qed

text \<open>
  C8 (which the code does not meet for the first question). When the first request of a
  session fails, the handler still sees question number 0: the index is \<open>(0 - 1) % 5\<close>,
  which is -1 in JavaScript, and the question becomes \<open>undefined\<close>, none of the five
  templates.
\<close>

theorem first_fallback_question_undefined:
  "currentQuestion (startInterview Rejected now (initialSession role)) = None
   \<and> currentQuestion (startInterview (HttpResponse 500 body) now (initialSession role)) = None
   \<and> js_rem (currentQuestionNumber (initialSession role) - 1) 5 = - 1"
  by (simp add: startInterview_def generateNewQuestion_def initialSession_def MAX_QUESTIONS_def
      fallbackQuestion_def fallbackQuestions_def array_get_def js_rem_def response_ok_def Let_def)

subsection \<open>Recording\<close>

text \<open>
  C9 (as amended). When the microphone is denied, \<open>startRecording\<close> shows the alert and
  leaves the recording flag false; the current answer and the audio chunks have been
  cleared before the device was asked for and stay empty; everything else, the score and
  the question records among it, is as before the call.
\<close>

theorem startRecording_denied:
  "startRecording Denied recognition s
     = s \<lparr> isRecording := False, isRecordingRef := False, currentAnswer := [], audioChunks := [],
           alerts := alerts s @ [microphoneAlert] \<rparr>
   \<and> isRecording (startRecording Denied recognition s) = False
   \<and> alerts (startRecording Denied recognition s) = alerts s @ [microphoneAlert]
   \<and> interviewScore (startRecording Denied recognition s) = interviewScore s
   \<and> responses (startRecording Denied recognition s) = responses s
   \<and> currentQuestion (startRecording Denied recognition s) = currentQuestion s
   \<and> currentQuestionNumber (startRecording Denied recognition s) = currentQuestionNumber s
   \<and> currentAnswer (startRecording Denied recognition s) = []
   \<and> audioChunks (startRecording Denied recognition s) = []"
  by (simp add: startRecording_def Let_def)

text \<open>
  C9 (as stated) fails: a transcript and audio chunks that are in the state when the
  recording is started are gone after the denied attempt.
\<close>

theorem startRecording_denied_counterexample:
  "isRecording (answeredSession \<lparr> audioChunks := [512] \<rparr>) = False
   \<and> currentAnswer (startRecording Denied Starts (answeredSession \<lparr> audioChunks := [512] \<rparr>)) = []
   \<and> currentAnswer (startRecording Denied Starts (answeredSession \<lparr> audioChunks := [512] \<rparr>))
       \<noteq> currentAnswer (answeredSession \<lparr> audioChunks := [512] \<rparr>)
   \<and> audioChunks (startRecording Denied Starts (answeredSession \<lparr> audioChunks := [512] \<rparr>))
       \<noteq> audioChunks (answeredSession \<lparr> audioChunks := [512] \<rparr>)
   \<and> startRecording Denied Starts (answeredSession \<lparr> audioChunks := [512] \<rparr>)
       \<noteq> answeredSession \<lparr> audioChunks := [512] \<rparr>"
proof -
  have a: "currentAnswer (startRecording Denied Starts (answeredSession \<lparr> audioChunks := [512] \<rparr>)) = []"
    by (simp add: startRecording_def Let_def)
  have b: "currentAnswer (answeredSession \<lparr> audioChunks := [512] \<rparr>) \<noteq> []"
    by (simp add: answeredSession_def)
  have c: "audioChunks (startRecording Denied Starts (answeredSession \<lparr> audioChunks := [512] \<rparr>)) = []"
    by (simp add: startRecording_def Let_def)
  have d: "isRecording (answeredSession \<lparr> audioChunks := [512] \<rparr>) = False"
    by (simp add: answeredSession_def initialSession_def)
  have e: "startRecording Denied Starts (answeredSession \<lparr> audioChunks := [512] \<rparr>)
       \<noteq> answeredSession \<lparr> audioChunks := [512] \<rparr>"
    using a b by metis
  show ?thesis using a b c d e by simp
qed

section \<open>Properties of the local scorer\<close>

subsection \<open>Character tables\<close>

text \<open>
  The character classes on the letters, digits and punctuation of the sample inputs, as
  equations that evaluate in one step.
\<close>

lemma is_space_table:
  "is_space CHR ''a'' = False" "is_space CHR ''b'' = False" "is_space CHR ''c'' = False"
  "is_space CHR ''d'' = False" "is_space CHR ''e'' = False" "is_space CHR ''f'' = False"
  "is_space CHR ''g'' = False" "is_space CHR ''h'' = False" "is_space CHR ''i'' = False"
  "is_space CHR ''j'' = False" "is_space CHR ''k'' = False" "is_space CHR ''l'' = False"
  "is_space CHR ''m'' = False" "is_space CHR ''n'' = False" "is_space CHR ''o'' = False"
  "is_space CHR ''p'' = False" "is_space CHR ''q'' = False" "is_space CHR ''r'' = False"
  "is_space CHR ''s'' = False" "is_space CHR ''t'' = False" "is_space CHR ''u'' = False"
  "is_space CHR ''v'' = False" "is_space CHR ''w'' = False" "is_space CHR ''x'' = False"
  "is_space CHR ''y'' = False" "is_space CHR ''z'' = False" "is_space CHR ''A'' = False"
  "is_space CHR ''B'' = False" "is_space CHR ''C'' = False" "is_space CHR ''D'' = False"
  "is_space CHR ''E'' = False" "is_space CHR ''F'' = False" "is_space CHR ''G'' = False"
  "is_space CHR ''H'' = False" "is_space CHR ''I'' = False" "is_space CHR ''J'' = False"
  "is_space CHR ''K'' = False" "is_space CHR ''L'' = False" "is_space CHR ''M'' = False"
  "is_space CHR ''N'' = False" "is_space CHR ''O'' = False" "is_space CHR ''P'' = False"
  "is_space CHR ''Q'' = False" "is_space CHR ''R'' = False" "is_space CHR ''S'' = False"
  "is_space CHR ''T'' = False" "is_space CHR ''U'' = False" "is_space CHR ''V'' = False"
  "is_space CHR ''W'' = False" "is_space CHR ''X'' = False" "is_space CHR ''Y'' = False"
  "is_space CHR ''Z'' = False" "is_space CHR ''0'' = False" "is_space CHR ''1'' = False"
  "is_space CHR ''2'' = False" "is_space CHR ''3'' = False" "is_space CHR ''4'' = False"
  "is_space CHR ''5'' = False" "is_space CHR ''6'' = False" "is_space CHR ''7'' = False"
  "is_space CHR ''8'' = False" "is_space CHR ''9'' = False" "is_space CHR '' '' = True"
  "is_space CHR ''.'' = False" "is_space CHR '','' = False" "is_space CHR '';'' = False"
  "is_space CHR ''!'' = False" "is_space CHR ''?'' = False" "is_space CHR ''%'' = False"
  "is_space CHR ''$'' = False" "is_space CHR ''_'' = False"
  by (simp_all add: is_space_def)

lemma is_digit_table:
  "is_digit CHR ''a'' = False" "is_digit CHR ''b'' = False" "is_digit CHR ''c'' = False"
  "is_digit CHR ''d'' = False" "is_digit CHR ''e'' = False" "is_digit CHR ''f'' = False"
  "is_digit CHR ''g'' = False" "is_digit CHR ''h'' = False" "is_digit CHR ''i'' = False"
  "is_digit CHR ''j'' = False" "is_digit CHR ''k'' = False" "is_digit CHR ''l'' = False"
  "is_digit CHR ''m'' = False" "is_digit CHR ''n'' = False" "is_digit CHR ''o'' = False"
  "is_digit CHR ''p'' = False" "is_digit CHR ''q'' = False" "is_digit CHR ''r'' = False"
  "is_digit CHR ''s'' = False" "is_digit CHR ''t'' = False" "is_digit CHR ''u'' = False"
  "is_digit CHR ''v'' = False" "is_digit CHR ''w'' = False" "is_digit CHR ''x'' = False"
  "is_digit CHR ''y'' = False" "is_digit CHR ''z'' = False" "is_digit CHR ''A'' = False"
  "is_digit CHR ''B'' = False" "is_digit CHR ''C'' = False" "is_digit CHR ''D'' = False"
  "is_digit CHR ''E'' = False" "is_digit CHR ''F'' = False" "is_digit CHR ''G'' = False"
  "is_digit CHR ''H'' = False" "is_digit CHR ''I'' = False" "is_digit CHR ''J'' = False"
  "is_digit CHR ''K'' = False" "is_digit CHR ''L'' = False" "is_digit CHR ''M'' = False"
  "is_digit CHR ''N'' = False" "is_digit CHR ''O'' = False" "is_digit CHR ''P'' = False"
  "is_digit CHR ''Q'' = False" "is_digit CHR ''R'' = False" "is_digit CHR ''S'' = False"
  "is_digit CHR ''T'' = False" "is_digit CHR ''U'' = False" "is_digit CHR ''V'' = False"
  "is_digit CHR ''W'' = False" "is_digit CHR ''X'' = False" "is_digit CHR ''Y'' = False"
  "is_digit CHR ''Z'' = False" "is_digit CHR ''0'' = True" "is_digit CHR ''1'' = True"
  "is_digit CHR ''2'' = True" "is_digit CHR ''3'' = True" "is_digit CHR ''4'' = True"
  "is_digit CHR ''5'' = True" "is_digit CHR ''6'' = True" "is_digit CHR ''7'' = True"
  "is_digit CHR ''8'' = True" "is_digit CHR ''9'' = True" "is_digit CHR '' '' = False"
  "is_digit CHR ''.'' = False" "is_digit CHR '','' = False" "is_digit CHR '';'' = False"
  "is_digit CHR ''!'' = False" "is_digit CHR ''?'' = False" "is_digit CHR ''%'' = False"
  "is_digit CHR ''$'' = False" "is_digit CHR ''_'' = False"
  by (simp_all add: is_digit_def)

lemma is_word_table:
  "is_word CHR ''a'' = True" "is_word CHR ''b'' = True" "is_word CHR ''c'' = True"
  "is_word CHR ''d'' = True" "is_word CHR ''e'' = True" "is_word CHR ''f'' = True"
  "is_word CHR ''g'' = True" "is_word CHR ''h'' = True" "is_word CHR ''i'' = True"
  "is_word CHR ''j'' = True" "is_word CHR ''k'' = True" "is_word CHR ''l'' = True"
  "is_word CHR ''m'' = True" "is_word CHR ''n'' = True" "is_word CHR ''o'' = True"
  "is_word CHR ''p'' = True" "is_word CHR ''q'' = True" "is_word CHR ''r'' = True"
  "is_word CHR ''s'' = True" "is_word CHR ''t'' = True" "is_word CHR ''u'' = True"
  "is_word CHR ''v'' = True" "is_word CHR ''w'' = True" "is_word CHR ''x'' = True"
  "is_word CHR ''y'' = True" "is_word CHR ''z'' = True" "is_word CHR ''A'' = True"
  "is_word CHR ''B'' = True" "is_word CHR ''C'' = True" "is_word CHR ''D'' = True"
  "is_word CHR ''E'' = True" "is_word CHR ''F'' = True" "is_word CHR ''G'' = True"
  "is_word CHR ''H'' = True" "is_word CHR ''I'' = True" "is_word CHR ''J'' = True"
  "is_word CHR ''K'' = True" "is_word CHR ''L'' = True" "is_word CHR ''M'' = True"
  "is_word CHR ''N'' = True" "is_word CHR ''O'' = True" "is_word CHR ''P'' = True"
  "is_word CHR ''Q'' = True" "is_word CHR ''R'' = True" "is_word CHR ''S'' = True"
  "is_word CHR ''T'' = True" "is_word CHR ''U'' = True" "is_word CHR ''V'' = True"
  "is_word CHR ''W'' = True" "is_word CHR ''X'' = True" "is_word CHR ''Y'' = True"
  "is_word CHR ''Z'' = True" "is_word CHR ''0'' = True" "is_word CHR ''1'' = True"
  "is_word CHR ''2'' = True" "is_word CHR ''3'' = True" "is_word CHR ''4'' = True"
  "is_word CHR ''5'' = True" "is_word CHR ''6'' = True" "is_word CHR ''7'' = True"
  "is_word CHR ''8'' = True" "is_word CHR ''9'' = True" "is_word CHR '' '' = False"
  "is_word CHR ''.'' = False" "is_word CHR '','' = False" "is_word CHR '';'' = False"
  "is_word CHR ''!'' = False" "is_word CHR ''?'' = False" "is_word CHR ''%'' = False"
  "is_word CHR ''$'' = False" "is_word CHR ''_'' = True"
  by (simp_all add: is_word_def)

lemma canonicalize_table:
  "canonicalize CHR ''a'' = 65" "canonicalize CHR ''b'' = 66" "canonicalize CHR ''c'' = 67"
  "canonicalize CHR ''d'' = 68" "canonicalize CHR ''e'' = 69" "canonicalize CHR ''f'' = 70"
  "canonicalize CHR ''g'' = 71" "canonicalize CHR ''h'' = 72" "canonicalize CHR ''i'' = 73"
  "canonicalize CHR ''j'' = 74" "canonicalize CHR ''k'' = 75" "canonicalize CHR ''l'' = 76"
  "canonicalize CHR ''m'' = 77" "canonicalize CHR ''n'' = 78" "canonicalize CHR ''o'' = 79"
  "canonicalize CHR ''p'' = 80" "canonicalize CHR ''q'' = 81" "canonicalize CHR ''r'' = 82"
  "canonicalize CHR ''s'' = 83" "canonicalize CHR ''t'' = 84" "canonicalize CHR ''u'' = 85"
  "canonicalize CHR ''v'' = 86" "canonicalize CHR ''w'' = 87" "canonicalize CHR ''x'' = 88"
  "canonicalize CHR ''y'' = 89" "canonicalize CHR ''z'' = 90" "canonicalize CHR ''A'' = 65"
  "canonicalize CHR ''B'' = 66" "canonicalize CHR ''C'' = 67" "canonicalize CHR ''D'' = 68"
  "canonicalize CHR ''E'' = 69" "canonicalize CHR ''F'' = 70" "canonicalize CHR ''G'' = 71"
  "canonicalize CHR ''H'' = 72" "canonicalize CHR ''I'' = 73" "canonicalize CHR ''J'' = 74"
  "canonicalize CHR ''K'' = 75" "canonicalize CHR ''L'' = 76" "canonicalize CHR ''M'' = 77"
  "canonicalize CHR ''N'' = 78" "canonicalize CHR ''O'' = 79" "canonicalize CHR ''P'' = 80"
  "canonicalize CHR ''Q'' = 81" "canonicalize CHR ''R'' = 82" "canonicalize CHR ''S'' = 83"
  "canonicalize CHR ''T'' = 84" "canonicalize CHR ''U'' = 85" "canonicalize CHR ''V'' = 86"
  "canonicalize CHR ''W'' = 87" "canonicalize CHR ''X'' = 88" "canonicalize CHR ''Y'' = 89"
  "canonicalize CHR ''Z'' = 90" "canonicalize CHR ''0'' = 48" "canonicalize CHR ''1'' = 49"
  "canonicalize CHR ''2'' = 50" "canonicalize CHR ''3'' = 51" "canonicalize CHR ''4'' = 52"
  "canonicalize CHR ''5'' = 53" "canonicalize CHR ''6'' = 54" "canonicalize CHR ''7'' = 55"
  "canonicalize CHR ''8'' = 56" "canonicalize CHR ''9'' = 57" "canonicalize CHR '' '' = 32"
  "canonicalize CHR ''.'' = 46" "canonicalize CHR '','' = 44" "canonicalize CHR '';'' = 59"
  "canonicalize CHR ''!'' = 33" "canonicalize CHR ''?'' = 63" "canonicalize CHR ''%'' = 37"
  "canonicalize CHR ''$'' = 36" "canonicalize CHR ''_'' = 95"
  by (simp_all add: canonicalize_def)

lemma to_lower_char_table:
  "to_lower_char CHR ''a'' = CHR ''a''" "to_lower_char CHR ''b'' = CHR ''b''"
  "to_lower_char CHR ''c'' = CHR ''c''" "to_lower_char CHR ''d'' = CHR ''d''"
  "to_lower_char CHR ''e'' = CHR ''e''" "to_lower_char CHR ''f'' = CHR ''f''"
  "to_lower_char CHR ''g'' = CHR ''g''" "to_lower_char CHR ''h'' = CHR ''h''"
  "to_lower_char CHR ''i'' = CHR ''i''" "to_lower_char CHR ''j'' = CHR ''j''"
  "to_lower_char CHR ''k'' = CHR ''k''" "to_lower_char CHR ''l'' = CHR ''l''"
  "to_lower_char CHR ''m'' = CHR ''m''" "to_lower_char CHR ''n'' = CHR ''n''"
  "to_lower_char CHR ''o'' = CHR ''o''" "to_lower_char CHR ''p'' = CHR ''p''"
  "to_lower_char CHR ''q'' = CHR ''q''" "to_lower_char CHR ''r'' = CHR ''r''"
  "to_lower_char CHR ''s'' = CHR ''s''" "to_lower_char CHR ''t'' = CHR ''t''"
  "to_lower_char CHR ''u'' = CHR ''u''" "to_lower_char CHR ''v'' = CHR ''v''"
  "to_lower_char CHR ''w'' = CHR ''w''" "to_lower_char CHR ''x'' = CHR ''x''"
  "to_lower_char CHR ''y'' = CHR ''y''" "to_lower_char CHR ''z'' = CHR ''z''"
  "to_lower_char CHR ''A'' = CHR ''a''" "to_lower_char CHR ''B'' = CHR ''b''"
  "to_lower_char CHR ''C'' = CHR ''c''" "to_lower_char CHR ''D'' = CHR ''d''"
  "to_lower_char CHR ''E'' = CHR ''e''" "to_lower_char CHR ''F'' = CHR ''f''"
  "to_lower_char CHR ''G'' = CHR ''g''" "to_lower_char CHR ''H'' = CHR ''h''"
  "to_lower_char CHR ''I'' = CHR ''i''" "to_lower_char CHR ''J'' = CHR ''j''"
  "to_lower_char CHR ''K'' = CHR ''k''" "to_lower_char CHR ''L'' = CHR ''l''"
  "to_lower_char CHR ''M'' = CHR ''m''" "to_lower_char CHR ''N'' = CHR ''n''"
  "to_lower_char CHR ''O'' = CHR ''o''" "to_lower_char CHR ''P'' = CHR ''p''"
  "to_lower_char CHR ''Q'' = CHR ''q''" "to_lower_char CHR ''R'' = CHR ''r''"
  "to_lower_char CHR ''S'' = CHR ''s''" "to_lower_char CHR ''T'' = CHR ''t''"
  "to_lower_char CHR ''U'' = CHR ''u''" "to_lower_char CHR ''V'' = CHR ''v''"
  "to_lower_char CHR ''W'' = CHR ''w''" "to_lower_char CHR ''X'' = CHR ''x''"
  "to_lower_char CHR ''Y'' = CHR ''y''" "to_lower_char CHR ''Z'' = CHR ''z''"
  "to_lower_char CHR ''0'' = CHR ''0''" "to_lower_char CHR ''1'' = CHR ''1''"
  "to_lower_char CHR ''2'' = CHR ''2''" "to_lower_char CHR ''3'' = CHR ''3''"
  "to_lower_char CHR ''4'' = CHR ''4''" "to_lower_char CHR ''5'' = CHR ''5''"
  "to_lower_char CHR ''6'' = CHR ''6''" "to_lower_char CHR ''7'' = CHR ''7''"
  "to_lower_char CHR ''8'' = CHR ''8''" "to_lower_char CHR ''9'' = CHR ''9''"
  "to_lower_char CHR '' '' = CHR '' ''" "to_lower_char CHR ''.'' = CHR ''.''"
  "to_lower_char CHR '','' = CHR '',''" "to_lower_char CHR '';'' = CHR '';''"
  "to_lower_char CHR ''!'' = CHR ''!''" "to_lower_char CHR ''?'' = CHR ''?''"
  "to_lower_char CHR ''%'' = CHR ''%''" "to_lower_char CHR ''$'' = CHR ''$''"
  "to_lower_char CHR ''_'' = CHR ''_''"
  by (simp_all add: to_lower_char_def) code_simp+


declare is_space_table [code] is_digit_table [code] is_word_table [code]
  canonicalize_table [code] to_lower_char_table [code]

subsection \<open>Word count and length\<close>

lemma filter_js_eq: "filter_js keep xs = filter keep xs"
proof (induction xs)
  case Nil
  then show ?case by simp
next
  case (Cons x xs)
  then show ?case by (cases "keep x") simp_all
qed

lemma split_runs_total_length:
  "sum_list (map length (split_runs sep inSep cur s)) \<le> length cur + length s"
proof (induction s arbitrary: inSep cur)
  case Nil
  then show ?case by simp
next
  case (Cons c cs)
  show ?case
  proof (cases "sep c")
    case True
    then show ?thesis using Cons.IH [of True "[]"] by (cases inSep) simp_all
  next
    case False
    then show ?thesis using Cons.IH [of False "c # cur"] by simp
  qed
qed

lemma long_words_total_length:
  "2 * length (filter (\<lambda>word. length word > 1) ws) \<le> sum_list (map length ws)"
  by (induction ws) auto

text \<open>Every countable word has two characters at least, so an answer is at least twice as
  long as its word count.\<close>

lemma wordCountOf_le_length: "2 * wordCountOf s \<le> length s"
  using split_runs_total_length [of is_space False "[]" s]
    long_words_total_length [of "split_runs is_space False [] s"]
  by (simp add: wordCountOf_def wordsOf_def split_regex_def filter_js_eq)

subsection \<open>The branches of the scorer\<close>

text \<open>
  C4. A transcript whose trimmed form has no countable word, or fewer than 3 characters,
  gets score 0, the fixed feedback, no strengths and the fixed list of three
  improvements, whatever the response time, the facial history and the random value.
\<close>

theorem degenerate_transcript_scores_zero:
  assumes "wordCountOf (trim answer) = 0 \<or> length (trim answer) < 3"
  shows "calculateRealisticScore answer responseTime question facial random =
           \<lparr> score = 0,
             feedback = ''No meaningful response provided. Please answer the question with specific details.'',
             strengths = [],
             improvements = [''Provide a complete answer to the question'',
               ''Use specific examples from your experience'', ''Speak clearly and confidently''] \<rparr>
       \<and> score (calculateRealisticScore answer responseTime question facial random) = 0
       \<and> strengths (calculateRealisticScore answer responseTime question facial random) = []
       \<and> improvements (calculateRealisticScore answer responseTime question facial random) \<noteq> []"
  using assms by (auto simp add: calculateRealisticScore_def Let_def)

theorem degenerate_transcript_scores_zero_witness:
  "wordCountOf (trim []) = 0
   \<and> score (calculateRealisticScore [] 10 None [] 0) = 0
   \<and> strengths (calculateRealisticScore [] 10 None [] 0) = []
   \<and> improvements (calculateRealisticScore [] 10 None [] 0) \<noteq> []"
proof -
  have w: "wordCountOf (trim []) = 0"
    by (simp add: trim_def wordCountOf_def wordsOf_def split_regex_def)
  then have h: "wordCountOf (trim []) = 0 \<or> length (trim []) < 3" by simp
  show ?thesis
    using w degenerate_transcript_scores_zero [OF h, of 10 None "[]" 0] by simp
qed

lemma score_fullEvaluation:
  "score (fullEvaluation trimmedAnswer wordCount sentenceCount avgWords responseTime facial)
     = totalScoreOf wordCount (clarityScore wordCount)
         (structureScore sentenceCount avgWords trimmedAnswer) (timingScore responseTime)
         (nonverbalScore facial) (hasSpecificExamples trimmedAnswer)
         (hasQuantifiableResults trimmedAnswer) (hasSTARStructure trimmedAnswer)
         (technicalTerms trimmedAnswer) (hasHedging trimmedAnswer)
         (lacksCapitalization trimmedAnswer wordCount)"
  unfolding fullEvaluation_def Let_def by (simp only: local_evaluation.simps)

lemma feedback_fullEvaluation:
  "feedback (fullEvaluation trimmedAnswer wordCount sentenceCount avgWords responseTime facial)
     = feedbackFor (score (fullEvaluation trimmedAnswer wordCount sentenceCount avgWords
         responseTime facial))"
  unfolding fullEvaluation_def Let_def by (simp only: local_evaluation.simps)

lemma score_full:
  assumes "15 \<le> wordCountOf (trim answer)"
  shows "score (calculateRealisticScore answer responseTime question facial random)
       = totalScoreOf (wordCountOf (trim answer)) (clarityScore (wordCountOf (trim answer)))
           (structureOf (trim answer)) (timingScore responseTime) (nonverbalScore facial)
           (hasSpecificExamples (trim answer)) (hasQuantifiableResults (trim answer))
           (hasSTARStructure (trim answer)) (technicalTerms (trim answer))
           (hasHedging (trim answer))
           (lacksCapitalization (trim answer) (wordCountOf (trim answer)))"
proof -
  have "3 \<le> length (trim answer)"
    using wordCountOf_le_length [of "trim answer"] assms by simp
  then show ?thesis using assms
    by (simp add: calculateRealisticScore_def score_fullEvaluation structureOf_def Let_def)
qed

lemma feedback_full:
  assumes "15 \<le> wordCountOf (trim answer)"
  shows "feedback (calculateRealisticScore answer responseTime question facial random)
       = feedbackFor (score (calculateRealisticScore answer responseTime question facial random))"
proof -
  have "3 \<le> length (trim answer)"
    using wordCountOf_le_length [of "trim answer"] assms by simp
  then show ?thesis using assms
    by (simp add: calculateRealisticScore_def feedback_fullEvaluation Let_def)
qed

lemma applyCaps_range: "0 \<le> applyCaps w ex qu star x \<and> applyCaps w ex qu star x \<le> 100"
  by (simp add: applyCaps_def Let_def)

text \<open>The local scorer returns a score from 0 to 100, whichever branch it takes.\<close>

lemma local_score_range:
  assumes "0 \<le> random" and "random < 1"
  shows "0 \<le> score (calculateRealisticScore answer responseTime question facial random)
       \<and> score (calculateRealisticScore answer responseTime question facial random) \<le> 100"
proof -
  have r10: "0 \<le> \<lfloor>random * 10\<rfloor>" "\<lfloor>random * 10\<rfloor> \<le> 9"
    using assms by (simp_all add: floor_le_iff)
  have r20: "0 \<le> \<lfloor>random * 20\<rfloor>" "\<lfloor>random * 20\<rfloor> \<le> 19"
    using assms by (simp_all add: floor_le_iff)
  show ?thesis
    using r10 r20 applyCaps_range
    by (simp add: calculateRealisticScore_def score_fullEvaluation totalScoreOf_def Let_def)
qed

lemma nonverbalScore_nonneg: "0 \<le> nonverbalScore facial"
  by (simp add: nonverbalScore_def Let_def)

subsection \<open>Monotonicity in the word count\<close>

lemma clarityScore_mono: "w1 \<le> w2 \<Longrightarrow> clarityScore w1 \<le> clarityScore w2"
  by (simp add: clarityScore_def)

lemma qualityBonuses_mono:
  "w1 \<le> w2 \<Longrightarrow> qualityBonuses w1 ex qu star terms \<le> qualityBonuses w2 ex qu star terms"
  unfolding qualityBonuses_def by (intro add_mono) simp_all

lemma applyPenalties_mono: "x \<le> y \<Longrightarrow> applyPenalties h u x \<le> applyPenalties h u y"
  by (simp add: applyPenalties_def Let_def floor_mono)

lemma applyCaps_mono:
  assumes "w1 \<le> w2" and "x \<le> y"
  shows "applyCaps w1 ex qu star x \<le> applyCaps w2 ex qu star y"
proof -
  define cap35 :: "nat \<Rightarrow> int \<Rightarrow> int" where "cap35 w t = (if w < 20 then min t 35 else t)" for w t
  define cap45 :: "nat \<Rightarrow> int \<Rightarrow> int" where
    "cap45 w t = (if w < 30 \<and> \<not> ex then min t 45 else t)" for w t
  define cap50 :: "int \<Rightarrow> int" where
    "cap50 t = (if \<not> ex \<and> \<not> qu \<and> \<not> star then min t 50 else t)" for t
  define clamp :: "int \<Rightarrow> int" where "clamp t = max 0 (min 100 t)" for t
  have eq: "applyCaps w ex qu star t = clamp (cap50 (cap45 w (cap35 w t)))" for w t
    unfolding applyCaps_def cap35_def cap45_def cap50_def clamp_def Let_def by (rule refl)
  have m35: "cap35 w1 a \<le> cap35 w2 b" if "a \<le> b" for a b
    using that assms(1) by (auto simp add: cap35_def)
  have m45: "cap45 w1 a \<le> cap45 w2 b" if "a \<le> b" for a b
    using that assms(1) by (auto simp add: cap45_def)
  have m50: "cap50 a \<le> cap50 b" if "a \<le> b" for a b
    using that by (auto simp add: cap50_def)
  have mc: "clamp a \<le> clamp b" if "a \<le> b" for a b
    using that by (auto simp add: clamp_def)
  show ?thesis
    unfolding eq by (intro mc m50 m45 m35 assms(2))
qed

lemma totalScoreOf_mono:
  assumes "w1 \<le> w2"
  shows "totalScoreOf w1 (clarityScore w1) st ti nv ex qu star terms h u
       \<le> totalScoreOf w2 (clarityScore w2) st ti nv ex qu star terms h u"
  unfolding totalScoreOf_def
  by (intro applyCaps_mono applyPenalties_mono add_mono clarityScore_mono qualityBonuses_mono
      assms order_refl)

text \<open>
  C6 (as amended). Of two transcripts with at least 15 countable words, the one with more
  words scores at least as much, when the other factors are the same and the structure
  component is the same too: the structure component, which tests the mean number of
  words per sentence and so depends on the word count, the three content tests, the
  number of technical terms, the response time, the facial history, the hedging test and
  the capitalization test. The word-count caps of 35 and 45 only ever bind the shorter
  answer. The random value plays no part from 15 words on.
\<close>

theorem score_monotone_in_word_count:
  assumes "15 \<le> wordCountOf (trim a1)"
    and "wordCountOf (trim a1) \<le> wordCountOf (trim a2)"
    and "structureOf (trim a1) = structureOf (trim a2)"
    and "hasSpecificExamples (trim a1) = hasSpecificExamples (trim a2)"
    and "hasQuantifiableResults (trim a1) = hasQuantifiableResults (trim a2)"
    and "hasSTARStructure (trim a1) = hasSTARStructure (trim a2)"
    and "technicalTerms (trim a1) = technicalTerms (trim a2)"
    and "hasHedging (trim a1) = hasHedging (trim a2)"
    and "lacksCapitalization (trim a1) (wordCountOf (trim a1))
           = lacksCapitalization (trim a2) (wordCountOf (trim a2))"
  shows "score (calculateRealisticScore a1 responseTime question1 facial random1)
       \<le> score (calculateRealisticScore a2 responseTime question2 facial random2)"
proof -
  have long2: "15 \<le> wordCountOf (trim a2)" using assms(1,2) by simp
  show ?thesis
    unfolding score_full [OF assms(1)] score_full [OF long2]
    using assms(3-9) totalScoreOf_mono [OF assms(2)] by simp
qed

text \<open>The two sample answers of 24 and 46 words, evaluated.\<close>

lemma planAnswer_features:
  "wordCountOf (trim planAnswer) = 24"
  "structureOf (trim planAnswer) = 20"
  "hasSpecificExamples (trim planAnswer) = False"
  "hasQuantifiableResults (trim planAnswer) = False"
  "hasSTARStructure (trim planAnswer) = False"
  "technicalTerms (trim planAnswer) = 0"
  "hasHedging (trim planAnswer) = False"
  "lacksCapitalization (trim planAnswer) 24 = True"
  by code_simp+

lemma planAnswerLonger_features:
  "wordCountOf (trim planAnswerLonger) = 46"
  "structureOf (trim planAnswerLonger) = 20"
  "hasSpecificExamples (trim planAnswerLonger) = False"
  "hasQuantifiableResults (trim planAnswerLonger) = False"
  "hasSTARStructure (trim planAnswerLonger) = False"
  "technicalTerms (trim planAnswerLonger) = 0"
  "hasHedging (trim planAnswerLonger) = False"
  "lacksCapitalization (trim planAnswerLonger) 46 = True"
  by code_simp+

lemma planAnswer_scores:
  "score (calculateRealisticScore planAnswer 45 None [] 0) = 40"
  "score (calculateRealisticScore planAnswerLonger 45 None [] 0) = 50"
  by (simp_all add: score_full planAnswer_features planAnswerLonger_features totalScoreOf_def
      clarityScore_def timingScore_def nonverbalScore_def qualityBonuses_def applyPenalties_def
      applyCaps_def Let_def)

theorem score_monotone_in_word_count_witness:
  "15 \<le> wordCountOf (trim planAnswer)
   \<and> wordCountOf (trim planAnswer) \<le> wordCountOf (trim planAnswerLonger)
   \<and> wordCountOf (trim planAnswer) = 24 \<and> wordCountOf (trim planAnswerLonger) = 46
   \<and> structureOf (trim planAnswer) = structureOf (trim planAnswerLonger)
   \<and> hasSpecificExamples (trim planAnswer) = hasSpecificExamples (trim planAnswerLonger)
   \<and> hasQuantifiableResults (trim planAnswer) = hasQuantifiableResults (trim planAnswerLonger)
   \<and> hasSTARStructure (trim planAnswer) = hasSTARStructure (trim planAnswerLonger)
   \<and> technicalTerms (trim planAnswer) = technicalTerms (trim planAnswerLonger)
   \<and> hasHedging (trim planAnswer) = hasHedging (trim planAnswerLonger)
   \<and> lacksCapitalization (trim planAnswer) (wordCountOf (trim planAnswer))
       = lacksCapitalization (trim planAnswerLonger) (wordCountOf (trim planAnswerLonger))
   \<and> score (calculateRealisticScore planAnswer 45 None [] 0) = 40
   \<and> score (calculateRealisticScore planAnswerLonger 45 None [] 0) = 50
   \<and> score (calculateRealisticScore planAnswer 45 None [] 0)
       \<le> score (calculateRealisticScore planAnswerLonger 45 None [] 0)"
proof -
  have h1: "15 \<le> wordCountOf (trim planAnswer)" by (simp add: planAnswer_features)
  have h2: "wordCountOf (trim planAnswer) \<le> wordCountOf (trim planAnswerLonger)"
    by (simp add: planAnswer_features planAnswerLonger_features)
  have h3: "structureOf (trim planAnswer) = structureOf (trim planAnswerLonger)"
    by (simp add: planAnswer_features planAnswerLonger_features)
  have h4: "hasSpecificExamples (trim planAnswer) = hasSpecificExamples (trim planAnswerLonger)"
    by (simp add: planAnswer_features planAnswerLonger_features)
  have h5: "hasQuantifiableResults (trim planAnswer) = hasQuantifiableResults (trim planAnswerLonger)"
    by (simp add: planAnswer_features planAnswerLonger_features)
  have h6: "hasSTARStructure (trim planAnswer) = hasSTARStructure (trim planAnswerLonger)"
    by (simp add: planAnswer_features planAnswerLonger_features)
  have h7: "technicalTerms (trim planAnswer) = technicalTerms (trim planAnswerLonger)"
    by (simp add: planAnswer_features planAnswerLonger_features)
  have h8: "hasHedging (trim planAnswer) = hasHedging (trim planAnswerLonger)"
    by (simp add: planAnswer_features planAnswerLonger_features)
  have h9: "lacksCapitalization (trim planAnswer) (wordCountOf (trim planAnswer))
       = lacksCapitalization (trim planAnswerLonger) (wordCountOf (trim planAnswerLonger))"
    by (simp add: planAnswer_features planAnswerLonger_features)
  show ?thesis
    using h1 h2 h3 h4 h5 h6 h7 h8 h9 planAnswer_features(1) planAnswerLonger_features(1)
      planAnswer_scores
      score_monotone_in_word_count [OF h1 h2 h3 h4 h5 h6 h7 h8 h9, of 45 None "[]" 0 None 0]
    by blast
qed

text \<open>The two sample answers of 50 and 52 words, evaluated.\<close>

lemma teamAnswer_features:
  "wordCountOf (trim teamAnswer) = 50"
  "sentenceCountOf (trim teamAnswer) = 2"
  "includes_str (trim teamAnswer) '','' = True"
  "hasSpecificExamples (trim teamAnswer) = False"
  "hasQuantifiableResults (trim teamAnswer) = False"
  "hasSTARStructure (trim teamAnswer) = False"
  "technicalTerms (trim teamAnswer) = 0"
  "hasHedging (trim teamAnswer) = False"
  "lowercaseWords (trim teamAnswer) = 50"
  "structureOf (trim teamAnswer) = 20"
  by code_simp+

lemma teamAnswerLonger_features:
  "wordCountOf (trim teamAnswerLonger) = 52"
  "sentenceCountOf (trim teamAnswerLonger) = 2"
  "includes_str (trim teamAnswerLonger) '','' = True"
  "hasSpecificExamples (trim teamAnswerLonger) = False"
  "hasQuantifiableResults (trim teamAnswerLonger) = False"
  "hasSTARStructure (trim teamAnswerLonger) = False"
  "technicalTerms (trim teamAnswerLonger) = 0"
  "hasHedging (trim teamAnswerLonger) = False"
  "lowercaseWords (trim teamAnswerLonger) = 52"
  "structureOf (trim teamAnswerLonger) = 10"
  by code_simp+

lemma teamAnswer_scores:
  "score (calculateRealisticScore teamAnswer 45 None [] 0) = 50"
  "score (calculateRealisticScore teamAnswerLonger 45 None [] 0) = 40"
  by (simp_all add: score_full teamAnswer_features teamAnswerLonger_features totalScoreOf_def
      clarityScore_def timingScore_def nonverbalScore_def qualityBonuses_def applyPenalties_def
      applyCaps_def lacksCapitalization_def Let_def)

text \<open>
  C6 (as stated) fails: the mean number of words per sentence is the word count divided
  by the number of sentences. Two answers of two sentences with 50 and 52 words, with the
  same comma, content tests, technical terms, hedging test, capitalization ratio, response
  time and facial history, have means 25 and 26; the longer one leaves the band from 8 to
  25, loses 10 points of structure and scores 40 where the shorter one scores 50.
\<close>

theorem score_not_monotone_counterexample:
  "15 \<le> wordCountOf (trim teamAnswer)
   \<and> wordCountOf (trim teamAnswer) = 50 \<and> wordCountOf (trim teamAnswerLonger) = 52
   \<and> sentenceCountOf (trim teamAnswer) = 2 \<and> sentenceCountOf (trim teamAnswerLonger) = 2
   \<and> includes_str (trim teamAnswer) '','' \<and> includes_str (trim teamAnswerLonger) '',''
   \<and> hasSpecificExamples (trim teamAnswer) = hasSpecificExamples (trim teamAnswerLonger)
   \<and> hasQuantifiableResults (trim teamAnswer) = hasQuantifiableResults (trim teamAnswerLonger)
   \<and> hasSTARStructure (trim teamAnswer) = hasSTARStructure (trim teamAnswerLonger)
   \<and> technicalTerms (trim teamAnswer) = technicalTerms (trim teamAnswerLonger)
   \<and> hasHedging (trim teamAnswer) = hasHedging (trim teamAnswerLonger)
   \<and> real (lowercaseWords (trim teamAnswer)) / real (wordCountOf (trim teamAnswer))
       = real (lowercaseWords (trim teamAnswerLonger)) / real (wordCountOf (trim teamAnswerLonger))
   \<and> structureOf (trim teamAnswer) = 20 \<and> structureOf (trim teamAnswerLonger) = 10
   \<and> score (calculateRealisticScore teamAnswer 45 None [] 0) = 50
   \<and> score (calculateRealisticScore teamAnswerLonger 45 None [] 0) = 40
   \<and> \<not> score (calculateRealisticScore teamAnswer 45 None [] 0)
         \<le> score (calculateRealisticScore teamAnswerLonger 45 None [] 0)"
  by (simp add: teamAnswer_features teamAnswerLonger_features teamAnswer_scores)

subsection \<open>The scenario of a STAR-structured answer\<close>

lemma qualityBonuses_long:
  assumes "60 \<le> w"
  shows "qualityBonuses w ex True True terms
       = (if ex then 30 else 20) + (if terms \<ge> 2 then 5 else 0)"
  using assms by (simp add: qualityBonuses_def)

lemma applyCaps_long:
  assumes "60 \<le> w"
  shows "applyCaps w ex True star x = max 0 (min 100 x)"
  using assms by (simp add: applyCaps_def)

lemma applyPenalties_no_hedging: "x - 5 \<le> applyPenalties False u x"
  by (simp add: applyPenalties_def)

text \<open>
  C5 (as amended). For a transcript of at least 60 countable words with quantifiable-result
  language and a STAR keyword, a structure component of at least 15 and no hedging phrase,
  answered in 45 seconds: clarity is 30, timing is 15, the quality bonuses are at least 20
  and the score is at least 75. If the transcript also has concrete-example language (the
  word \<open>situation\<close>, for one), the score is at least 85 and the feedback is the one that
  begins with \<open>Excellent response\<close>.
\<close>

theorem scenarioB_score_bounds:
  assumes "60 \<le> wordCountOf (trim answer)"
    and "hasQuantifiableResults (trim answer)"
    and "hasSTARStructure (trim answer)"
    and "15 \<le> structureOf (trim answer)"
    and "\<not> hasHedging (trim answer)"
  shows "clarityScore (wordCountOf (trim answer)) = 30
       \<and> timingScore 45 = 15
       \<and> 20 \<le> qualityBonuses (wordCountOf (trim answer)) (hasSpecificExamples (trim answer))
                 (hasQuantifiableResults (trim answer)) (hasSTARStructure (trim answer))
                 (technicalTerms (trim answer))
       \<and> 75 \<le> score (calculateRealisticScore answer 45 question facial random)
       \<and> (hasSpecificExamples (trim answer) \<longrightarrow>
            85 \<le> score (calculateRealisticScore answer 45 question facial random)
            \<and> feedback (calculateRealisticScore answer 45 question facial random)
                = ''Excellent response! Strong content with specific examples and clear impact.'')"
proof -
  let ?w = "wordCountOf (trim answer)"
  let ?ex = "hasSpecificExamples (trim answer)"
  let ?terms = "technicalTerms (trim answer)"
  let ?bonus = "qualityBonuses ?w ?ex True True ?terms"
  let ?sum = "clarityScore ?w + structureOf (trim answer) + timingScore 45 + nonverbalScore facial + ?bonus"
  have long: "15 \<le> ?w" using assms(1) by simp
  have clarity: "clarityScore ?w = 30" using assms(1) by (simp add: clarityScore_def)
  have timing: "timingScore 45 = 15" by (simp add: timingScore_def)
  have bonus: "20 \<le> ?bonus" "?ex \<Longrightarrow> 30 \<le> ?bonus"
    by (simp_all add: qualityBonuses_long [OF assms(1)])
  have sum: "80 \<le> ?sum" "?ex \<Longrightarrow> 90 \<le> ?sum"
    using clarity timing bonus assms(4) nonverbalScore_nonneg [of facial] by linarith+
  have score: "score (calculateRealisticScore answer 45 question facial random)
      = max 0 (min 100 (applyPenalties False (lacksCapitalization (trim answer) ?w) ?sum))"
    using assms(2,3,5)
    by (simp add: score_full [OF long] totalScoreOf_def applyCaps_long [OF assms(1)])
  have low: "75 \<le> score (calculateRealisticScore answer 45 question facial random)"
    using sum(1) applyPenalties_no_hedging [of ?sum "lacksCapitalization (trim answer) ?w"]
    unfolding score by linarith
  have high: "85 \<le> score (calculateRealisticScore answer 45 question facial random)" if "?ex"
    using sum(2) [OF that] applyPenalties_no_hedging [of ?sum "lacksCapitalization (trim answer) ?w"]
    unfolding score by linarith
  have fb: "feedback (calculateRealisticScore answer 45 question facial random)
      = ''Excellent response! Strong content with specific examples and clear impact.''" if "?ex"
    using high [OF that] by (simp add: feedback_full [OF long] feedbackFor_def)
  show ?thesis
    using clarity timing bonus(1) low high fb assms(2,3) by simp
qed

lemma scenarioB_plain_features:
  "wordCountOf (trim scenarioB_plain) = 60"
  "includes_str scenarioB_plain ''increased revenue by 20%'' = True"
  "hasQuantifiableResults (trim scenarioB_plain) = True"
  "hasSTARStructure (trim scenarioB_plain) = True"
  "hasSpecificExamples (trim scenarioB_plain) = False"
  "technicalTerms (trim scenarioB_plain) = 0"
  "hasHedging (trim scenarioB_plain) = False"
  "structureOf (trim scenarioB_plain) = 15"
  "lacksCapitalization (trim scenarioB_plain) 60 = True"
  by code_simp+

lemma scenarioB_plain_result:
  "calculateRealisticScore scenarioB_plain 45 None [] 0 =
     \<lparr> score = 75,
       feedback = ''Good response with solid content. Could be enhanced with more specific examples.'',
       strengths = [''Included measurable results and impact'',
         ''Followed a structured approach (STAR method)'',
         ''Provided comprehensive and detailed response'',
         ''Took appropriate time to think through the response''],
       improvements = [''Include concrete examples from your actual experience'',
         ''Maintain better eye contact and show more engagement'',
         ''Include more specific technical terminology relevant to the role''] \<rparr>"
  by code_simp

text \<open>
  C5 (as stated) fails: an answer of 60 words with the phrase and three STAR keywords,
  clarity 30, structure 15, timing 15 and bonuses 20, scores 80 before and 75 after the
  penalty for missing capitalization, and gets the feedback for a good response.
\<close>

theorem scenarioB_counterexample:
  "wordCountOf (trim scenarioB_plain) = 60
   \<and> includes_str scenarioB_plain ''increased revenue by 20%''
   \<and> hasSTARStructure (trim scenarioB_plain)
   \<and> clarityScore (wordCountOf (trim scenarioB_plain)) = 30
   \<and> structureOf (trim scenarioB_plain) = 15
   \<and> timingScore 45 = 15
   \<and> qualityBonuses (wordCountOf (trim scenarioB_plain)) (hasSpecificExamples (trim scenarioB_plain))
        (hasQuantifiableResults (trim scenarioB_plain)) (hasSTARStructure (trim scenarioB_plain))
        (technicalTerms (trim scenarioB_plain)) = 20
   \<and> score (calculateRealisticScore scenarioB_plain 45 None [] 0) = 75
   \<and> \<not> 85 \<le> score (calculateRealisticScore scenarioB_plain 45 None [] 0)
   \<and> feedback (calculateRealisticScore scenarioB_plain 45 None [] 0)
       = ''Good response with solid content. Could be enhanced with more specific examples.''"
  by (simp add: scenarioB_plain_features scenarioB_plain_result clarityScore_def timingScore_def
      qualityBonuses_def)

lemma scenarioB_full_features:
  "wordCountOf (trim scenarioB_full) = 60"
  "includes_str scenarioB_full ''increased revenue by 20%'' = True"
  "hasQuantifiableResults (trim scenarioB_full) = True"
  "hasSTARStructure (trim scenarioB_full) = True"
  "hasSpecificExamples (trim scenarioB_full) = True"
  "technicalTerms (trim scenarioB_full) = 0"
  "hasHedging (trim scenarioB_full) = False"
  "structureOf (trim scenarioB_full) = 20"
  by code_simp+

lemma scenarioB_full_result:
  "calculateRealisticScore scenarioB_full 45 None [] 0 =
     \<lparr> score = 90,
       feedback = ''Excellent response! Strong content with specific examples and clear impact.'',
       strengths = [''Used specific examples to support your answer'',
         ''Included measurable results and impact'',
         ''Followed a structured approach (STAR method)'',
         ''Provided comprehensive and detailed response'',
         ''Took appropriate time to think through the response''],
       improvements = [''Maintain better eye contact and show more engagement'',
         ''Include more specific technical terminology relevant to the role''] \<rparr>"
  by code_simp

theorem scenarioB_score_bounds_witness:
  "60 \<le> wordCountOf (trim scenarioB_full)
   \<and> includes_str scenarioB_full ''increased revenue by 20%''
   \<and> hasQuantifiableResults (trim scenarioB_full)
   \<and> hasSTARStructure (trim scenarioB_full)
   \<and> 15 \<le> structureOf (trim scenarioB_full)
   \<and> \<not> hasHedging (trim scenarioB_full)
   \<and> hasSpecificExamples (trim scenarioB_full)
   \<and> score (calculateRealisticScore scenarioB_full 45 None [] 0) = 90
   \<and> 85 \<le> score (calculateRealisticScore scenarioB_full 45 None [] 0)
   \<and> feedback (calculateRealisticScore scenarioB_full 45 None [] 0)
       = ''Excellent response! Strong content with specific examples and clear impact.''"
proof -
  have h1: "60 \<le> wordCountOf (trim scenarioB_full)" by (simp add: scenarioB_full_features)
  have h2: "hasQuantifiableResults (trim scenarioB_full)" by (simp add: scenarioB_full_features)
  have h3: "hasSTARStructure (trim scenarioB_full)" by (simp add: scenarioB_full_features)
  have h4: "15 \<le> structureOf (trim scenarioB_full)" by (simp add: scenarioB_full_features)
  have h5: "\<not> hasHedging (trim scenarioB_full)" by (simp add: scenarioB_full_features)
  have h6: "hasSpecificExamples (trim scenarioB_full)" by (simp add: scenarioB_full_features)
  have inc: "includes_str scenarioB_full ''increased revenue by 20%''"
    by (simp add: scenarioB_full_features)
  have v: "score (calculateRealisticScore scenarioB_full 45 None [] 0) = 90"
    by (simp add: scenarioB_full_result)
  show ?thesis
    using h1 h2 h3 h4 h5 h6 inc v scenarioB_score_bounds [OF h1 h2 h3 h4 h5, of None "[]" 0]
    by blast
qed

section \<open>Properties of the evaluation fallback\<close>

lemma fetched_failure:
  "fetched Rejected = None"
  "\<not> response_ok status \<Longrightarrow> fetched (HttpResponse status body) = None"
  "fetched (HttpResponse status None) = None"
  by simp_all

lemma alerts_proceed_update:
  "alerts (proceedToNextStep rendered (updateScoreWithEvaluation ev responseTime now s)) = alerts s"
  by (simp add: proceedToNextStep_def updateScoreWithEvaluation_def Let_def)

text \<open>
  C7. When the remote evaluation fails (the request is rejected, the status is not a
  success, or the body does not parse) for an answer with audio or transcript data, the
  handler merges the result of the local scorer on the same transcript and response time,
  shows no alert, and schedules the next question or the end of the interview.
\<close>

theorem evaluation_failure_falls_back:
  assumes "fetched result = None"
    and "\<not> (length (audioChunks s) = 0 \<and> trim (currentAnswer s) = [])"
  shows "processAudioAndTranscript voice result random now s
           = proceedToNextStep (interviewScore s)
               (updateScoreWithEvaluation
                  (asEvaluation (calculateRealisticScore (currentAnswer s) (elapsedSeconds now s)
                     (currentQuestion s) (facialHistory s) random))
                  (elapsedSeconds now s) now s)
       \<and> interviewScore (processAudioAndTranscript voice result random now s)
           = mergeScore
               (real_of_int (score (calculateRealisticScore (currentAnswer s) (elapsedSeconds now s)
                  (currentQuestion s) (facialHistory s) random)))
               (elapsedSeconds now s) (interviewScore s)
       \<and> alerts (processAudioAndTranscript voice result random now s) = alerts s
       \<and> timers (processAudioAndTranscript voice result random now s)
           = timers s @ [(2000,
               if questionsAnswered (interviewScore s) + 1 + questionsSkipped (interviewScore s)
                    \<ge> MAX_QUESTIONS
               then EndInterview else GenerateNewQuestion)]"
proof -
  let ?local = "asEvaluation (calculateRealisticScore (currentAnswer s) (elapsedSeconds now s)
                     (currentQuestion s) (facialHistory s) random)"
  have run: "processAudioAndTranscript voice result random now s
           = proceedToNextStep (interviewScore s)
               (updateScoreWithEvaluation ?local (elapsedSeconds now s) now s)"
    using assms
    by (auto simp add: processAudioAndTranscript_def processTranscriptOnly_def evaluateResponse_def
        localEvaluation_def Let_def)
  have sc: "scoreOrZero ?local = real_of_int (score (calculateRealisticScore (currentAnswer s)
      (elapsedSeconds now s) (currentQuestion s) (facialHistory s) random))"
    by (simp add: scoreOrZero_def asEvaluation_def)
  show ?thesis
    unfolding run
    by (simp add: proceedToNextStep_def updateScoreWithEvaluation_def Let_def sc)
qed

lemma answeredSession_local:
  "calculateRealisticScore ''I like tests very much'' 12 (Some ''Tell me about yourself.'') [] (1 / 2)
     = \<lparr> score = 10,
         feedback = ''Response is too brief and lacks substance. Elaborate with specific examples.'',
         strengths = [''Attempted to answer''],
         improvements = [''Provide much more detail'', ''Include specific examples'',
           ''Explain your thought process'',
           ''Use the STAR method (Situation, Task, Action, Result)''] \<rparr>"
  by code_simp

lemma answeredSession_trim: "trim ''I like tests very much'' = ''I like tests very much''"
  by code_simp

theorem evaluation_failure_falls_back_witness:
  "fetched (HttpResponse 500 None :: evaluation fetch_result) = None
   \<and> \<not> (length (audioChunks answeredSession) = 0 \<and> trim (currentAnswer answeredSession) = [])
   \<and> totalScore (interviewScore
        (processAudioAndTranscript Rejected (HttpResponse 500 None) 0.5 12000 answeredSession)) = 2
   \<and> questionsAnswered (interviewScore
        (processAudioAndTranscript Rejected (HttpResponse 500 None) 0.5 12000 answeredSession)) = 1
   \<and> alerts (processAudioAndTranscript Rejected (HttpResponse 500 None) 0.5 12000 answeredSession) = []
   \<and> timers (processAudioAndTranscript Rejected (HttpResponse 500 None) 0.5 12000 answeredSession)
       = [(2000, GenerateNewQuestion)]"
proof -
  have h1: "fetched (HttpResponse 500 None :: evaluation fetch_result) = None" by simp
  have h2: "\<not> (length (audioChunks answeredSession) = 0 \<and> trim (currentAnswer answeredSession) = [])"
    by (simp add: answeredSession_def initialSession_def answeredSession_trim)
  have t: "elapsedSeconds 12000 answeredSession = 12"
    by (simp add: elapsedSeconds_def answeredSession_def initialSession_def)
  have fields: "currentAnswer answeredSession = ''I like tests very much''"
    "currentQuestion answeredSession = Some ''Tell me about yourself.''"
    "facialHistory answeredSession = []" "alerts answeredSession = []" "timers answeredSession = []"
    "interviewScore answeredSession = initialScore"
    by (simp_all add: answeredSession_def initialSession_def)
  note fallback = evaluation_failure_falls_back [OF h1 h2, of Rejected "1 / 2" 12000]
  have sc: "interviewScore
        (processAudioAndTranscript Rejected (HttpResponse 500 None) (1 / 2) 12000 answeredSession)
      = mergeScore 10 12 initialScore"
    using fallback [THEN conjunct2, THEN conjunct1] by (simp add: t fields answeredSession_local)
  have al: "alerts
        (processAudioAndTranscript Rejected (HttpResponse 500 None) (1 / 2) 12000 answeredSession) = []"
    using fallback [THEN conjunct2, THEN conjunct2, THEN conjunct1] by (simp add: fields)
  have ti: "timers
        (processAudioAndTranscript Rejected (HttpResponse 500 None) (1 / 2) 12000 answeredSession)
      = [(2000, GenerateNewQuestion)]"
    using fallback [THEN conjunct2, THEN conjunct2, THEN conjunct2]
    by (simp add: fields initialScore_def MAX_QUESTIONS_def)
  show ?thesis
    using h1 h2 by (simp add: sc al ti mergeScore_def initialScore_def Let_def)
qed

end
